theory Spec2Isabelle
  imports Main "HOL-Library.Mapping"
begin

section \<open>Go strings and paths\<close>

text \<open>
  A Go \<open>string\<close> is a sequence of bytes; it is modelled as \<^typ>\<open>string\<close>, a list of
  8-bit characters. \<open>strings.HasPrefix\<close>, \<open>strings.HasSuffix\<close> and \<open>strings.TrimSuffix\<close>
  compare bytes:
  \<^verbatim>\<open>
  func HasPrefix(s, prefix string) bool { return len(s) >= len(prefix) && s[:len(prefix)] == prefix }
  func HasSuffix(s, suffix string) bool { return len(s) >= len(suffix) && s[len(s)-len(suffix):] == suffix }
  func TrimSuffix(s, suffix string) string {
      if HasSuffix(s, suffix) { return s[:len(s)-len(suffix)] }
      return s
  }
  \<close>
\<close>

definition HasPrefix :: "string \<Rightarrow> string \<Rightarrow> bool" where
  "HasPrefix s pre = (length pre \<le> length s \<and> take (length pre) s = pre)"

definition HasSuffix :: "string \<Rightarrow> string \<Rightarrow> bool" where
  "HasSuffix s suf = (length suf \<le> length s \<and> drop (length s - length suf) s = suf)"

definition TrimSuffix :: "string \<Rightarrow> string \<Rightarrow> string" where
  "TrimSuffix s suf = (if HasSuffix s suf then take (length s - length suf) s else s)"

text \<open>
  \<open>strings.ToLower\<close>, \<open>strings.TrimSpace\<close> and \<open>strings.Fields\<close> have a byte-wise path for
  text that is ASCII only, modelled here as it is, and a Unicode path (case tables, Unicode
  white space) for any other text, which is a parameter: the record \<open>golib\<close> collects the
  functions of Go's standard library that the program calls and that are not modelled
  here (the Unicode paths, SHA-256, the request constructor of \<open>net/http\<close> and the
  readers of \<open>compress/gzip\<close>, \<open>archive/tar\<close> and \<open>archive/zip\<close>). Every theorem below
  holds for every such record.
\<close>

definition isASCII :: "char \<Rightarrow> bool" where
  "isASCII c = ((of_char c :: nat) < 128)"

definition lowerByte :: "char \<Rightarrow> char" where
  "lowerByte c =
     (case map_of (zip ''ABCDEFGHIJKLMNOPQRSTUVWXYZ'' ''abcdefghijklmnopqrstuvwxyz'') c of
        Some l \<Rightarrow> l
      | None \<Rightarrow> c)"

text \<open>The ASCII white space of Go: tab, line feed, vertical tab, form feed, carriage return, space.\<close>

definition asciiSpace :: "char \<Rightarrow> bool" where
  "asciiSpace c = ((of_char c :: nat) \<in> {9, 10, 11, 12, 13, 32})"

text \<open>
  The ASCII path of \<open>strings.Fields\<close> scans the bytes once; \<open>fields_scan\<close> carries the
  field being read (backwards) and closes it at a white-space byte or at the end.
\<close>

fun fields_scan :: "string \<Rightarrow> string \<Rightarrow> string list" where
  "fields_scan cur [] = (if cur = [] then [] else [rev cur])"
| "fields_scan cur (c # cs) =
     (if asciiSpace c then (if cur = [] then fields_scan [] cs else rev cur # fields_scan [] cs)
      else fields_scan (c # cur) cs)"

definition asciiFields :: "string \<Rightarrow> string list" where
  "asciiFields s = fields_scan [] s"

text \<open>
  An error value is either a plain message (\<open>errors.New\<close>, \<open>fmt.Errorf\<close> without \<open>%w\<close>) or
  wraps another error (\<open>fmt.Errorf\<close> with \<open>%w\<close>, \<open>*os.PathError\<close>, \<open>*os.LinkError\<close>): the text
  before \<open>%w\<close>, the wrapped error, the text after it.
\<close>

datatype error = ErrorString string | WrapError string error string

fun Error :: "error \<Rightarrow> string" where
  "Error (ErrorString msg) = msg"
| "Error (WrapError before err after) = before @ Error err @ after"


text \<open>A reader yields bytes and then ends with \<open>io.EOF\<close> (\<open>None\<close>) or with an error.\<close>

type_synonym reader = "string \<times> error option"

record tar_Header =
  Typeflag :: char
  tar_Name :: string
  tar_body :: reader

record zip_File =
  zip_Name :: string
  zip_Open :: "error + reader"

record golib =
  unicode_ToLower :: "string \<Rightarrow> string"
  unicode_TrimSpace :: "string \<Rightarrow> string"
  unicode_Fields :: "string \<Rightarrow> string list"
  sha256_hex :: "string \<Rightarrow> string"
  http_NewRequest :: "string \<Rightarrow> error option"
  gzip_NewReader :: "reader \<Rightarrow> error + reader"
  tar_NewReader :: "reader \<Rightarrow> tar_Header list \<times> error option"
  zip_NewReader :: "reader \<Rightarrow> nat \<Rightarrow> error + zip_File list"

definition ToLower :: "golib \<Rightarrow> string \<Rightarrow> string" where
  "ToLower L s = (if list_all isASCII s then map lowerByte s else unicode_ToLower L s)"

definition TrimSpace :: "golib \<Rightarrow> string \<Rightarrow> string" where
  "TrimSpace L s =
     (if list_all isASCII s then rev (dropWhile asciiSpace (rev (dropWhile asciiSpace s)))
      else unicode_TrimSpace L s)"

definition Fields :: "golib \<Rightarrow> string \<Rightarrow> string list" where
  "Fields L s = (if list_all isASCII s then asciiFields s else unicode_Fields L s)"

text \<open>
  \<open>filepath.Ext\<close> and \<open>filepath.Base\<close> on a system whose path separator is \<open>/\<close>:
  \<^verbatim>\<open>
  func Ext(path string) string {
      for i := len(path) - 1; i >= 0 && !os.IsPathSeparator(path[i]); i-- {
          if path[i] == '.' { return path[i:] }
      }
      return ""
  }
  \<close>
  \<open>ext_scan\<close> is the loop: its first argument is \<open>path[0..i]\<close> read backwards from \<open>i\<close>, its
  second \<open>path[i+1:]\<close>.
\<close>

fun ext_scan :: "string \<Rightarrow> string \<Rightarrow> string" where
  "ext_scan [] after = []"
| "ext_scan (c # cs) after =
     (if c = CHR ''/'' then [] else if c = CHR ''.'' then c # after else ext_scan cs (c # after))"

definition Ext :: "string \<Rightarrow> string" where
  "Ext path = ext_scan (rev path) []"

text \<open>
  \<^verbatim>\<open>
  func Base(path string) string {
      if path == "" { return "." }
      for len(path) > 0 && os.IsPathSeparator(path[len(path)-1]) { path = path[0 : len(path)-1] }
      i := len(path) - 1
      for i >= 0 && !os.IsPathSeparator(path[i]) { i-- }
      if i >= 0 { path = path[i+1:] }
      if path == "" { return "/" }
      return path
  }
  \<close>
\<close>

definition Base :: "string \<Rightarrow> string" where
  "Base path =
     (if path = [] then ''.''
      else let stripped = dropWhile (\<lambda>c. c = CHR ''/'') (rev path);
               last_elem = rev (takeWhile (\<lambda>c. c \<noteq> CHR ''/'') stripped)
           in if last_elem = [] then ''/'' else last_elem)"

section \<open>The file system, the network and the \<open>os\<close> package\<close>

text \<open>
  The program acts on files and on the network. Both are a \<open>world\<close> that every effectful
  function receives and returns:
  \<^item> \<open>files\<close>: the file at each path (its bytes and permission bits);
  \<^item> \<open>TempDir\<close>: what \<open>os.TempDir()\<close> returns;
  \<^item> \<open>entropy\<close>, \<open>entropy_used\<close>: the numbers the runtime's random source returns, and how
    many were taken;
  \<^item> \<open>http\<close>: the answer of the network to a GET of a URL, an error or the body;
    \<open>requests\<close>: the URLs requested so far;
  \<^item> \<open>fault\<close>: whether the operating system refuses a call (permissions, a rename across
    devices, a read-only directory), by the call's name and paths. A refused call changes
    nothing.
\<close>

record os_file =
  content :: string
  mode :: nat

record world =
  files :: "string \<rightharpoonup> os_file"
  TempDir :: string
  entropy :: "nat \<Rightarrow> nat"
  entropy_used :: nat
  http :: "string \<Rightarrow> error + reader"
  requests :: "string list"
  fault :: "string \<Rightarrow> string list \<Rightarrow> error option"

definition PathError :: "string \<Rightarrow> string \<Rightarrow> error \<Rightarrow> error" where
  "PathError op path err = WrapError (op @ '' '' @ path @ '': '') err []"

definition LinkError :: "string \<Rightarrow> string \<Rightarrow> string \<Rightarrow> error \<Rightarrow> error" where
  "LinkError op old new err = WrapError (op @ '' '' @ old @ '' '' @ new @ '': '') err []"

definition ErrNotExist :: error where
  "ErrNotExist = ErrorString ''no such file or directory''"

definition ErrExist :: error where
  "ErrExist = ErrorString ''file already exists''"

definition errPatternHasSeparator :: error where
  "errPatternHasSeparator = ErrorString ''pattern contains path separator''"

definition os_Open :: "string \<Rightarrow> world \<Rightarrow> error + reader" where
  "os_Open name w =
     (case fault w ''open'' [name] of
        Some e \<Rightarrow> Inl (PathError ''open'' name e)
      | None \<Rightarrow>
          (case files w name of
             None \<Rightarrow> Inl (PathError ''open'' name ErrNotExist)
           | Some f \<Rightarrow> Inr (content f, None)))"

definition os_Chmod :: "string \<Rightarrow> nat \<Rightarrow> world \<Rightarrow> error option \<times> world" where
  "os_Chmod name m w =
     (case fault w ''chmod'' [name] of
        Some e \<Rightarrow> (Some (PathError ''chmod'' name e), w)
      | None \<Rightarrow>
          (case files w name of
             None \<Rightarrow> (Some (PathError ''chmod'' name ErrNotExist), w)
           | Some f \<Rightarrow> (None, w\<lparr>files := (files w)(name \<mapsto> f\<lparr>mode := m\<rparr>)\<rparr>)))"

definition os_Remove :: "string \<Rightarrow> world \<Rightarrow> error option \<times> world" where
  "os_Remove name w =
     (case fault w ''remove'' [name] of
        Some e \<Rightarrow> (Some (PathError ''remove'' name e), w)
      | None \<Rightarrow>
          (case files w name of
             None \<Rightarrow> (Some (PathError ''remove'' name ErrNotExist), w)
           | Some f \<Rightarrow> (None, w\<lparr>files := (files w)(name := None)\<rparr>)))"

text \<open>
  \<open>os.Rename\<close> is the system's \<open>rename\<close>: it fails and changes nothing, or the file of
  \<open>oldpath\<close> is at \<open>newpath\<close> (replacing what was there) and \<open>oldpath\<close> is gone.
\<close>

definition os_Rename :: "string \<Rightarrow> string \<Rightarrow> world \<Rightarrow> error option \<times> world" where
  "os_Rename oldpath newpath w =
     (case fault w ''rename'' [oldpath, newpath] of
        Some e \<Rightarrow> (Some (LinkError ''rename'' oldpath newpath e), w)
      | None \<Rightarrow>
          (case files w oldpath of
             None \<Rightarrow> (Some (LinkError ''rename'' oldpath newpath ErrNotExist), w)
           | Some f \<Rightarrow> (None, w\<lparr>files := (files w)(oldpath := None, newpath \<mapsto> f)\<rparr>)))"

text \<open>
  \<open>io.Copy(dst, src)\<close> for a file \<open>dst\<close> that was just created: the bytes \<open>src\<close> yields are
  appended to the file, and the error that ended \<open>src\<close>, if any, is returned.
\<close>

definition io_Copy :: "string \<Rightarrow> reader \<Rightarrow> world \<Rightarrow> error option \<times> world" where
  "io_Copy dst src w =
     (snd src,
      (case files w dst of
         None \<Rightarrow> w
       | Some f \<Rightarrow> w\<lparr>files := (files w)(dst \<mapsto> f\<lparr>content := content f @ fst src\<rparr>)\<rparr>))"

definition http_Do :: "string \<Rightarrow> world \<Rightarrow> (error + reader) \<times> world" where
  "http_Do url w = (http w url, w\<lparr>requests := requests w @ [url]\<rparr>)"

text \<open>
  \<open>os.CreateTemp\<close> (Go 1.16 and later):
  \<^verbatim>\<open>
  func CreateTemp(dir, pattern string) (*File, error) {
      if dir == "" { dir = TempDir() }
      prefix, suffix, err := prefixAndSuffix(pattern)
      if err != nil { return nil, &PathError{Op: "createtemp", Path: pattern, Err: err} }
      prefix = joinPath(dir, prefix)
      try := 0
      for {
          name := prefix + nextRandom() + suffix
          f, err := OpenFile(name, O_RDWR|O_CREATE|O_EXCL, 0600)
          if IsExist(err) {
              if try++; try < 10000 { continue }
              return nil, &PathError{Op: "createtemp", Path: prefix + "*" + suffix, Err: ErrExist}
          }
          return f, err
      }
  }
  func prefixAndSuffix(pattern string) (prefix, suffix string, err error) {
      for i := 0; i < len(pattern); i++ {
          if IsPathSeparator(pattern[i]) { return "", "", errPatternHasSeparator }
      }
      if pos := bytealg.LastIndexByteString(pattern, '*'); pos != -1 {
          prefix, suffix = pattern[:pos], pattern[pos+1:]
      } else { prefix = pattern }
      return prefix, suffix, nil
  }
  func nextRandom() string { return itoa.Uitoa(uint(uint32(runtime_rand()))) }
  \<close>
  The model returns the name of the file created, which is what the program uses of it.
\<close>

fun itoa :: "nat \<Rightarrow> string" where
  "itoa n =
     (if n < 10 then [''0123456789'' ! n] else itoa (n div 10) @ [''0123456789'' ! (n mod 10)])"

declare itoa.simps [simp del]

definition nextRandom :: "world \<Rightarrow> string \<times> world" where
  "nextRandom w =
     (itoa (entropy w (entropy_used w) mod 2 ^ 32), w\<lparr>entropy_used := entropy_used w + 1\<rparr>)"

definition prefixAndSuffix :: "string \<Rightarrow> error + string \<times> string" where
  "prefixAndSuffix pattern =
     (if CHR ''/'' \<in> set pattern then Inl errPatternHasSeparator
      else if CHR ''*'' \<in> set pattern
        then Inr (rev (tl (dropWhile (\<lambda>c. c \<noteq> CHR ''*'') (rev pattern))),
                  rev (takeWhile (\<lambda>c. c \<noteq> CHR ''*'') (rev pattern)))
        else Inr (pattern, []))"

definition joinPath :: "string \<Rightarrow> string \<Rightarrow> string" where
  "joinPath dir name = (if dir \<noteq> [] \<and> last dir = CHR ''/'' then dir @ name else dir @ ''/'' @ name)"

function createTemp_loop :: "nat \<Rightarrow> string \<Rightarrow> string \<Rightarrow> world \<Rightarrow> (error + string) \<times> world" where
  "createTemp_loop tries prefix suffix w =
     (case nextRandom w of
        (r, w1) \<Rightarrow>
          (let name = prefix @ r @ suffix in
           case fault w1 ''open'' [name] of
             Some e \<Rightarrow> (Inl (PathError ''open'' name e), w1)
           | None \<Rightarrow>
               if files w1 name \<noteq> None
               then (if tries + 1 < 10000 then createTemp_loop (tries + 1) prefix suffix w1
                     else (Inl (PathError ''createtemp'' (prefix @ ''*'' @ suffix) ErrExist), w1))
               else (Inr name, w1\<lparr>files := (files w1)(name \<mapsto> \<lparr>content = [], mode = 384\<rparr>)\<rparr>)))"
  by pat_completeness auto
termination
  by (relation "measure (\<lambda>(tries, prefix, suffix, w). 10000 - tries)") auto

definition os_CreateTemp :: "string \<Rightarrow> string \<Rightarrow> world \<Rightarrow> (error + string) \<times> world" where
  "os_CreateTemp dir pattern w =
     (let dir' = (if dir = [] then TempDir w else dir) in
      case prefixAndSuffix pattern of
        Inl err \<Rightarrow> (Inl (PathError ''createtemp'' pattern err), w)
      | Inr (prefix, suffix) \<Rightarrow> createTemp_loop 0 (joinPath dir' prefix) suffix w)"

declare createTemp_loop.simps [simp del]

section \<open>Archive extraction (\<open>upgrade.go\<close>)\<close>

text \<open>
  The three extraction helpers end alike: copy the entry into the new file, make the file
  executable (mode 0755, decimal 493), return its name.
  \<^verbatim>\<open>
  if _, err := io.Copy(out, src); err != nil {
      return "", fmt.Errorf("failed to copy file: %w", err)
  }
  if err := os.Chmod(out.Name(), 0755); err != nil {
      return "", fmt.Errorf("failed to change file permissions: %w", err)
  }
  return out.Name(), nil
  \<close>
\<close>

definition copy_out :: "string \<Rightarrow> reader \<Rightarrow> world \<Rightarrow> (error + string) \<times> world" where
  "copy_out out src w =
     (case io_Copy out src w of
        (Some err, w1) \<Rightarrow> (Inl (WrapError ''failed to copy file: '' err []), w1)
      | (None, w1) \<Rightarrow>
          (case os_Chmod out 493 w1 of
             (Some err, w2) \<Rightarrow> (Inl (WrapError ''failed to change file permissions: '' err []), w2)
           | (None, w2) \<Rightarrow> (Inr out, w2)))"

definition TypeReg :: char where
  "TypeReg = CHR ''0''"

text \<open>
  The loop of \<open>unTar\<close> over the headers that \<open>tarr.Next()\<close> returns; \<open>ended\<close> is what
  \<open>Next\<close> returns after the last header, \<open>io.EOF\<close> (\<open>None\<close>) or an error.
\<close>

fun unTar_loop :: "string \<Rightarrow> string \<Rightarrow> tar_Header list \<Rightarrow> error option \<Rightarrow> world \<Rightarrow> (error + string) \<times> world" where
  "unTar_loop prefix out [] ended w =
     (case ended of
        None \<Rightarrow> (Inl (ErrorString ''file not found in archive''), w)
      | Some err \<Rightarrow> (Inl (WrapError ''failed to read next header: '' err []), w))"
| "unTar_loop prefix out (hdr # rest) ended w =
     (if Typeflag hdr \<noteq> TypeReg then unTar_loop prefix out rest ended w
      else if \<not> HasPrefix (Base (tar_Name hdr)) prefix then unTar_loop prefix out rest ended w
      else copy_out out (tar_body hdr) w)"

definition unTar :: "golib \<Rightarrow> string \<Rightarrow> reader \<Rightarrow> world \<Rightarrow> (error + string) \<times> world" where
  "unTar L prefix r w =
     (case os_CreateTemp [] (''/tmp/'' @ prefix @ ''-*'') w of
        (Inl err, w1) \<Rightarrow> (Inl (WrapError ''failed to create temp file: '' err []), w1)
      | (Inr out, w1) \<Rightarrow>
          (case tar_NewReader L r of (hdrs, ended) \<Rightarrow> unTar_loop prefix out hdrs ended w1))"

definition unTarGz :: "golib \<Rightarrow> string \<Rightarrow> reader \<Rightarrow> world \<Rightarrow> (error + string) \<times> world" where
  "unTarGz L prefix r w =
     (case gzip_NewReader L r of
        Inl err \<Rightarrow> (Inl (WrapError ''failed to create gzip reader: '' err []), w)
      | Inr gzr \<Rightarrow> unTar L prefix gzr w)"

fun unZip_loop :: "string \<Rightarrow> zip_File list \<Rightarrow> world \<Rightarrow> (error + string) \<times> world" where
  "unZip_loop prefix [] w = (Inl (ErrorString (''no file found with prefix: '' @ prefix)), w)"
| "unZip_loop prefix (f # fs) w =
     (if \<not> HasPrefix (Base (zip_Name f)) prefix then unZip_loop prefix fs w
      else
        (case zip_Open f of
           Inl err \<Rightarrow> (Inl (WrapError ''failed to open file: '' err []), w)
         | Inr rc \<Rightarrow>
             (case os_CreateTemp [] (''/tmp/'' @ prefix @ ''-*'') w of
                (Inl err, w1) \<Rightarrow> (Inl (WrapError ''failed to create temp file: '' err []), w1)
              | (Inr out, w1) \<Rightarrow> copy_out out rc w1)))"

definition unZip :: "golib \<Rightarrow> string \<Rightarrow> reader \<Rightarrow> world \<Rightarrow> (error + string) \<times> world" where
  "unZip L prefix r w =
     (case zip_NewReader L r 0 of
        Inl err \<Rightarrow> (Inl (WrapError ''failed to create zip reader: '' err []), w)
      | Inr zfiles \<Rightarrow> unZip_loop prefix zfiles w)"

definition unGz :: "golib \<Rightarrow> string \<Rightarrow> reader \<Rightarrow> world \<Rightarrow> (error + string) \<times> world" where
  "unGz L prefix r w =
     (case gzip_NewReader L r of
        Inl err \<Rightarrow> (Inl (WrapError ''failed to create gzip reader: '' err []), w)
      | Inr gzr \<Rightarrow>
          (case os_CreateTemp [] (''/tmp/'' @ prefix @ ''-*'') w of
             (Inl err, w1) \<Rightarrow> (Inl (WrapError ''failed to create temp file: '' err []), w1)
           | (Inr out, w1) \<Rightarrow> copy_out out gzr w1))"

text \<open>
  \<open>tryUnArchive\<close> switches on \<open>filepath.Ext(arPath)\<close>; \<open>archive_case\<close> is the case of the
  switch that a value selects, in the order of the source.
\<close>

datatype archive_case = CaseTarGz | CaseZip | CaseTar | CaseGz | CaseNoExtension | CaseDefault

definition switch_ext :: "string \<Rightarrow> archive_case" where
  "switch_ext ext =
     (if ext = ''.tar.gz'' then CaseTarGz
      else if ext = ''.zip'' then CaseZip
      else if ext = ''.tar'' then CaseTar
      else if ext = ''.gz'' then CaseGz
      else if ext = [] then CaseNoExtension
      else CaseDefault)"

definition tryUnArchive :: "golib \<Rightarrow> string \<Rightarrow> string \<Rightarrow> world \<Rightarrow> (error + string) \<times> world" where
  "tryUnArchive L prefix arPath w =
     (case os_Open arPath w of
        Inl err \<Rightarrow> (Inl (WrapError ''failed to open file: '' err []), w)
      | Inr f \<Rightarrow>
          (case switch_ext (Ext arPath) of
             CaseTarGz \<Rightarrow> unTarGz L prefix f w
           | CaseZip \<Rightarrow> unZip L prefix f w
           | CaseTar \<Rightarrow> unTar L prefix f w
           | CaseGz \<Rightarrow> unGz L prefix f w
           | CaseNoExtension \<Rightarrow> (Inr arPath, w)
           | CaseDefault \<Rightarrow> (Inl (ErrorString (''unsupported file type: '' @ Ext arPath)), w)))"

definition replaceBinary :: "string \<Rightarrow> string \<Rightarrow> world \<Rightarrow> error option \<times> world" where
  "replaceBinary tmpFilePath currentBinaryPath w =
     (case os_Rename tmpFilePath currentBinaryPath w of
        (Some err, w1) \<Rightarrow> (Some (WrapError ''failed to replace binary: '' err []), w1)
      | (None, w1) \<Rightarrow> (None, w1))"

section \<open>Asset selection and download (\<open>release/asset/download.go\<close>)\<close>

text \<open>
  Modelled from the spec: the type \<open>release.Asset\<close> and the release descriptor that
  \<open>GetLatestRelease\<close> returns are declared in the package \<open>release\<close>, whose file is not
  among the sources. The spec gives them as \<open>{tagName: string, assets: [{url, ...}]}\<close>; the
  code reads the fields \<open>BrowserDownloadURL\<close>, \<open>TagName\<close> and \<open>Assets\<close>.
\<close>

record Asset =
  BrowserDownloadURL :: string

record ReleaseInfo =
  TagName :: string
  Assets :: "Asset list"

record asset_Info =
  Checksum :: string
  DownloadedBinaryFilePath :: string
  PlatformSuffix :: string
  ArSuffix :: string

type_synonym cleanupFn = "world \<Rightarrow> error option \<times> world"

record downloader =
  d_os :: string
  d_arch :: string
  d_executablePath :: string

definition ErrNoAsset :: error where
  "ErrNoAsset = ErrorString ''no asset found''"

definition downloadAsset :: "golib \<Rightarrow> downloader \<Rightarrow> string \<Rightarrow> world \<Rightarrow> (error + asset_Info \<times> cleanupFn) \<times> world" where
  "downloadAsset L d url w =
     (let executable = Base (d_executablePath d) in
      case http_NewRequest L url of
        Some err \<Rightarrow> (Inl err, w)
      | None \<Rightarrow>
          (case http_Do url w of
             (Inl err, w1) \<Rightarrow> (Inl err, w1)
           | (Inr body, w1) \<Rightarrow>
               (case os_CreateTemp [] executable w1 of
                  (Inl err, w2) \<Rightarrow> (Inl err, w2)
                | (Inr tmpFile, w2) \<Rightarrow>
                    (let cleanupFn = os_Remove tmpFile in
                     case io_Copy tmpFile body w2 of
                       (Some err, w3) \<Rightarrow> (Inl err, snd (cleanupFn w3))
                     | (None, w3) \<Rightarrow>
                         (case os_Chmod tmpFile 493 w3 of
                            (Some err, w4) \<Rightarrow> (Inl err, snd (cleanupFn w4))
                          | (None, w4) \<Rightarrow>
                              (Inr (\<lparr>Checksum = sha256_hex L (fst body),
                                     DownloadedBinaryFilePath = tmpFile,
                                     PlatformSuffix = [],
                                     ArSuffix = []\<rparr>, cleanupFn), w4))))))"

text \<open>
  The inner loop of \<open>DownloadAsset\<close> over \<open>.tar.gz\<close>, \<open>.tar\<close>, \<open>.zip\<close>, \<open>.gz\<close>: it returns
  \<open>ar\<close> and \<open>u\<close> as they are when the loop ends.
  \<^verbatim>\<open>
  var ar string
  for _, s := range []string{".tar.gz", ".tar", ".zip", ".gz"} {
      t := strings.TrimSuffix(u, s)
      if t != u { ar = s; u = t; break }
  }
  \<close>
\<close>

definition archive_suffixes :: "string list" where
  "archive_suffixes = [''.tar.gz'', ''.tar'', ''.zip'', ''.gz'']"

fun trim_first :: "string list \<Rightarrow> string \<Rightarrow> string \<times> string" where
  "trim_first [] u = ([], u)"
| "trim_first (s # ss) u = (let t = TrimSuffix u s in if t \<noteq> u then (s, t) else trim_first ss u)"

fun DownloadAsset_loop :: "golib \<Rightarrow> downloader \<Rightarrow> string \<Rightarrow> Asset list \<Rightarrow> world \<Rightarrow> (error + asset_Info \<times> cleanupFn option) \<times> world" where
  "DownloadAsset_loop L d suffix [] w =
     (Inl (WrapError [] ErrNoAsset ('': os:'' @ d_os d @ '' arch:'' @ d_arch d)), w)"
| "DownloadAsset_loop L d suffix (asset # rest) w =
     (case trim_first archive_suffixes (ToLower L (BrowserDownloadURL asset)) of
        (ar, u) \<Rightarrow>
          if HasSuffix u suffix
          then (case downloadAsset L d (BrowserDownloadURL asset) w of
                  (Inl err, w1) \<Rightarrow> (Inl err, w1)
                | (Inr (info, c), w1) \<Rightarrow>
                    (Inr (info\<lparr>PlatformSuffix := suffix, ArSuffix := ar\<rparr>, Some c), w1))
          else DownloadAsset_loop L d suffix rest w)"

definition DownloadAsset :: "golib \<Rightarrow> downloader \<Rightarrow> Asset list \<Rightarrow> world \<Rightarrow> (error + asset_Info \<times> cleanupFn option) \<times> world" where
  "DownloadAsset L d assets w = DownloadAsset_loop L d (d_os d @ ''_'' @ d_arch d) assets w"

section \<open>The checksum manifest (package \<open>checksum\<close>)\<close>

record checksum_Info =
  Checksums :: "(string, string) mapping"

record checksumDownloader =
  assetSuffix :: string

definition ErrNoCheckSumAsset :: error where
  "ErrNoCheckSumAsset = ErrorString ''no checksum asset found''"

definition ErrInvalidChecksumFile :: error where
  "ErrInvalidChecksumFile = ErrorString ''invalid checksum file''"

text \<open>
  The key of a manifest line, from its file name:
  \<^verbatim>\<open>
  k := strings.ToLower(parts[1])
  for _, s := range []string{".tar.gz", ".tar", ".zip", ".gz"} {
      k = strings.TrimSuffix(k, s)
  }
  \<close>
\<close>

definition manifest_key :: "golib \<Rightarrow> string \<Rightarrow> string" where
  "manifest_key L name = foldl TrimSuffix (ToLower L name) archive_suffixes"

text \<open>
  \<open>bufio.NewScanner(resp.Body)\<close> splits the body with \<open>bufio.ScanLines\<close> and holds at most
  \<open>bufio.MaxScanTokenSize\<close> bytes:
  \<^verbatim>\<open>
  func ScanLines(data []byte, atEOF bool) (advance int, token []byte, err error) {
      if atEOF && len(data) == 0 { return 0, nil, nil }
      if i := bytes.IndexByte(data, '\n'); i >= 0 { return i + 1, dropCR(data[0:i]), nil }
      if atEOF { return len(data), dropCR(data), nil }
      return 0, nil, nil
  }
  \<close>
  \<open>Scan\<close> calls it on the bytes read and not yet consumed, with \<open>atEOF\<close> once the reader
  has ended, with \<open>io.EOF\<close> or with an error. When the buffer is full and holds no token,
  \<open>Scan\<close> records \<open>ErrTooLong\<close> and returns false; a reader's error is recorded too, after
  the bytes it delivered have been split. Both are read with \<open>scanner.Err()\<close> only.

  \<open>scan_tokens cur rest\<close> is the list of the tokens that the calls of \<open>Scan\<close> yield, one
  after the other, until \<open>Scan\<close> returns false: \<open>cur\<close> holds the bytes of the line being
  read, the last one first, and \<open>rest\<close> the bytes that the reader has still to deliver. A
  line that reaches \<open>MaxScanTokenSize\<close> bytes before its newline ends the scan. (A last
  line of exactly that size with no newline is yielded by Go when the reader reports its
  end together with the last bytes; here it ends the scan as well.)
\<close>

definition MaxScanTokenSize :: nat where
  "MaxScanTokenSize = 64 * 1024"

definition dropCR :: "string \<Rightarrow> string" where
  "dropCR data = (if data \<noteq> [] \<and> last data = CHR 0x0D then butlast data else data)"

fun scan_tokens :: "string \<Rightarrow> string \<Rightarrow> string list" where
  "scan_tokens cur [] = (if cur = [] then [] else [dropCR (rev cur)])"
| "scan_tokens cur (c # cs) =
     (if c = CHR 0x0A then dropCR (rev cur) # scan_tokens [] cs
      else if MaxScanTokenSize \<le> length cur + 1 then []
      else scan_tokens (c # cur) cs)"

definition Scanner_lines :: "reader \<Rightarrow> string list" where
  "Scanner_lines r = scan_tokens [] (fst r)"

text \<open>
  The loop \<open>for scanner.Scan()\<close> of \<open>downloadCheckSum\<close>, over the lines that the scanner
  yields (\<open>scanner.Text()\<close>, one after the other), with the map built so far.
\<close>

fun scan_lines :: "golib \<Rightarrow> string list \<Rightarrow> (string, string) mapping \<Rightarrow> error + (string, string) mapping" where
  "scan_lines L [] checksums = Inr checksums"
| "scan_lines L (line # rest) checksums =
     (let parts = Fields L (TrimSpace L line) in
      if length parts \<noteq> 2
      then Inl (WrapError [] ErrInvalidChecksumFile '': checksum file is malformed'')
      else scan_lines L rest
             (Mapping.update (manifest_key L (parts ! 1)) (ToLower L (parts ! 0)) checksums))"

text \<open>
  What \<open>downloadCheckSum\<close> does with the lines, from the loop to the return. It returns
  without a call of \<open>scanner.Err()\<close>.
\<close>

definition parse_checksums :: "golib \<Rightarrow> string list \<Rightarrow> error + checksum_Info" where
  "parse_checksums L lines =
     (case scan_lines L lines Mapping.empty of
        Inl err \<Rightarrow> Inl err
      | Inr checksums \<Rightarrow>
          if Mapping.is_empty checksums
          then Inl (WrapError [] ErrInvalidChecksumFile '': checksum file is empty'')
          else Inr \<lparr>Checksums = checksums\<rparr>)"

definition downloadCheckSum :: "golib \<Rightarrow> string \<Rightarrow> world \<Rightarrow> (error + checksum_Info) \<times> world" where
  "downloadCheckSum L url w =
     (case http_NewRequest L url of
        Some err \<Rightarrow> (Inl err, w)
      | None \<Rightarrow>
          (case http_Do url w of
             (Inl err, w1) \<Rightarrow> (Inl err, w1)
           | (Inr body, w1) \<Rightarrow> (parse_checksums L (Scanner_lines body), w1)))"

fun Download :: "golib \<Rightarrow> checksumDownloader \<Rightarrow> Asset list \<Rightarrow> world \<Rightarrow> (error + checksum_Info) \<times> world" where
  "Download L c [] w = (Inl ErrNoCheckSumAsset, w)"
| "Download L c (asset # rest) w =
     (if HasSuffix (BrowserDownloadURL asset) (assetSuffix c)
      then downloadCheckSum L (BrowserDownloadURL asset) w
      else Download L c rest w)"

record validator =
  v_os :: string
  v_arch :: string

definition IsCheckSumValid :: "validator \<Rightarrow> string \<Rightarrow> checksum_Info \<Rightarrow> string \<Rightarrow> bool" where
  "IsCheckSumValid v binary info downloadedChecksum =
     (let key = binary @ ''_'' @ v_os v @ ''_'' @ v_arch v in
      case Mapping.lookup (Checksums info) key of
        None \<Rightarrow> False
      | Some expectedChecksum \<Rightarrow> expectedChecksum = downloadedChecksum)"

section \<open>The upgrade (\<open>upgrade.go\<close>)\<close>

text \<open>
  Versions are parsed and compared by the library \<open>hashicorp/go-version\<close>, a parameter:
  \<open>NewVersion\<close> parses, \<open>Compare\<close> returns a negative number, zero or a positive number, and
  \<^verbatim>\<open>
  func (v *Version) GreaterThan(o *Version) bool { return v.Compare(o) > 0 }
  func (v *Version) LessThanOrEqual(o *Version) bool { return v.Compare(o) <= 0 }
  \<close>
\<close>

record 'v version_lib =
  NewVersion :: "string \<Rightarrow> error + 'v"
  Compare :: "'v \<Rightarrow> 'v \<Rightarrow> int"

definition GreaterThan :: "'v version_lib \<Rightarrow> 'v \<Rightarrow> 'v \<Rightarrow> bool" where
  "GreaterThan V v o' = (0 < Compare V v o')"

definition LessThanOrEqual :: "'v version_lib \<Rightarrow> 'v \<Rightarrow> 'v \<Rightarrow> bool" where
  "LessThanOrEqual V v o' = (Compare V v o' \<le> 0)"

text \<open>
  The upgrader holds its collaborators as interface values; each is the function that
  its one method is. An implementation that returns no error returns its result (the
  \<open>*Info\<close> is not nil); the clean-up function may be nil.
\<close>

record upgrader =
  executablePath :: string
  repo :: string
  owner :: string
  releaseGetter :: "world \<Rightarrow> (error + ReleaseInfo) \<times> world"
  assetDownloader :: "Asset list \<Rightarrow> world \<Rightarrow> (error + asset_Info \<times> cleanupFn option) \<times> world"
  checksumDownloader :: "Asset list \<Rightarrow> world \<Rightarrow> (error + checksum_Info) \<times> world"
  checksumValidator :: "string \<Rightarrow> checksum_Info \<Rightarrow> string \<Rightarrow> bool"

text \<open>
  \<open>NewUpgrader\<close>: \<open>GOOS\<close> and \<open>GOARCH\<close> are the constants of the build, and
  \<open>NewReleaseGetter\<close> is the constructor of the package \<open>release\<close> (not among the sources).
\<close>

definition NewUpgrader :: "golib \<Rightarrow> string \<Rightarrow> string \<Rightarrow> (string \<Rightarrow> string \<Rightarrow> world \<Rightarrow> (error + ReleaseInfo) \<times> world) \<Rightarrow> string \<Rightarrow> string \<Rightarrow> string \<Rightarrow> (upgrader \<Rightarrow> upgrader) list \<Rightarrow> upgrader" where
  "NewUpgrader L GOOS GOARCH NewReleaseGetter owner' repo' executablePath' opts =
     foldl (\<lambda>u opt. opt u)
       \<lparr>executablePath = executablePath',
        repo = repo',
        owner = owner',
        releaseGetter = NewReleaseGetter repo' owner',
        assetDownloader = DownloadAsset L \<lparr>d_os = GOOS, d_arch = GOARCH, d_executablePath = executablePath'\<rparr>,
        checksumDownloader = Download L \<lparr>assetSuffix = ''checksums.txt''\<rparr>,
        checksumValidator = IsCheckSumValid \<lparr>v_os = GOOS, v_arch = GOARCH\<rparr>\<rparr>
       opts"

definition ErrInvalidCheckSum :: error where
  "ErrInvalidCheckSum = ErrorString ''invalid checksum''"

definition IsNewVersionAvailable :: "'v version_lib \<Rightarrow> upgrader \<Rightarrow> string \<Rightarrow> world \<Rightarrow> (error + bool) \<times> world" where
  "IsNewVersionAvailable V u currentVersion w =
     (case NewVersion V currentVersion of
        Inl err \<Rightarrow>
          (Inl (WrapError (''failed to parse current version: '' @ currentVersion @ '' with err '') err []), w)
      | Inr current \<Rightarrow>
          (case releaseGetter u w of
             (Inl err, w1) \<Rightarrow> (Inl err, w1)
           | (Inr releaseInfo, w1) \<Rightarrow>
               (case NewVersion V (TagName releaseInfo) of
                  Inl err \<Rightarrow>
                    (Inl (WrapError (''failed to parse latest version: '' @ TagName releaseInfo @ '' with err '') err []), w1)
                | Inr latest \<Rightarrow> (Inr (GreaterThan V latest current), w1))))"

text \<open>
  \<open>Upgrade\<close> in three parts. \<open>install\<close> is the body from \<open>tryUnArchive\<close> on, with the
  deferred \<open>os.Remove(tempFile)\<close> run when it returns after \<open>tryUnArchive\<close> succeeded;
  \<open>verify_and_install\<close> is the body from the checksum download on; \<open>Upgrade\<close> runs the
  deferred \<open>cleanup()\<close> last, when the asset was downloaded and \<open>cleanup\<close> is not nil.
  The errors that the deferred calls return are dropped, as in the source.
\<close>

definition install :: "golib \<Rightarrow> upgrader \<Rightarrow> string \<Rightarrow> asset_Info \<Rightarrow> world \<Rightarrow> error option \<times> world" where
  "install L u executableName downloadInfo w =
     (case tryUnArchive L executableName (DownloadedBinaryFilePath downloadInfo) w of
        (Inl err, w1) \<Rightarrow> (Some (WrapError ''failed to unarchive: '' err []), w1)
      | (Inr tempFile, w1) \<Rightarrow>
          (case replaceBinary tempFile (executablePath u) w1 of
             (Some err, w2) \<Rightarrow>
               (Some (WrapError ''failed to replace binary: '' err []), snd (os_Remove tempFile w2))
           | (None, w2) \<Rightarrow> (None, snd (os_Remove tempFile w2))))"

definition verify_and_install :: "golib \<Rightarrow> upgrader \<Rightarrow> ReleaseInfo \<Rightarrow> asset_Info \<Rightarrow> world \<Rightarrow> error option \<times> world" where
  "verify_and_install L u releaseInfo downloadInfo w =
     (case checksumDownloader u (Assets releaseInfo) w of
        (Inl err, w1) \<Rightarrow> (Some err, w1)
      | (Inr checksumInfo, w1) \<Rightarrow>
          (let executableName = Base (executablePath u) in
           if \<not> checksumValidator u executableName checksumInfo (Checksum downloadInfo)
           then (Some ErrInvalidCheckSum, w1)
           else install L u executableName downloadInfo w1))"

definition Upgrade :: "'v version_lib \<Rightarrow> golib \<Rightarrow> upgrader \<Rightarrow> string \<Rightarrow> world \<Rightarrow> error option \<times> world" where
  "Upgrade V L u currentVersion w =
     (case NewVersion V currentVersion of
        Inl err \<Rightarrow> (Some err, w)
      | Inr current \<Rightarrow>
          (case releaseGetter u w of
             (Inl err, w1) \<Rightarrow> (Some err, w1)
           | (Inr releaseInfo, w1) \<Rightarrow>
               (case NewVersion V (TagName releaseInfo) of
                  Inl err \<Rightarrow> (Some err, w1)
                | Inr latest \<Rightarrow>
                    if LessThanOrEqual V latest current then (None, w1)
                    else
                      (case assetDownloader u (Assets releaseInfo) w1 of
                         (Inl err, w2) \<Rightarrow> (Some err, w2)
                       | (Inr (downloadInfo, cleanup), w2) \<Rightarrow>
                           (case verify_and_install L u releaseInfo downloadInfo w2 of
                              (res, w3) \<Rightarrow>
                                (res, (case cleanup of None \<Rightarrow> w3 | Some c \<Rightarrow> snd (c w3))))))))"

section \<open>The claims' wording and example inputs\<close>

text \<open>
  The spec's asset matcher, in the spec's words: the archive suffix of a lower-cased URL is
  the first of \<open>.tar.gz\<close>, \<open>.tar\<close>, \<open>.zip\<close>, \<open>.gz\<close> that the URL ends with (empty when it
  ends with none); the URL is normalized by stripping that suffix; an asset matches a
  target when its normalized URL ends with the target.
\<close>

definition spec_archive_suffix :: "string \<Rightarrow> string" where
  "spec_archive_suffix u = (case List.find (HasSuffix u) archive_suffixes of None \<Rightarrow> [] | Some s \<Rightarrow> s)"

definition spec_normalize :: "string \<Rightarrow> string" where
  "spec_normalize u = take (length u - length (spec_archive_suffix u)) u"

definition spec_matches :: "golib \<Rightarrow> string \<Rightarrow> Asset \<Rightarrow> bool" where
  "spec_matches L target a = HasSuffix (spec_normalize (ToLower L (BrowserDownloadURL a))) target"



definition same_ignoring_case :: "golib \<Rightarrow> string \<Rightarrow> string \<Rightarrow> bool" where
  "same_ignoring_case L a b = (ToLower L a = ToLower L b)"






text \<open>
  A library, a world and a release to evaluate the functions on. The Unicode paths are the
  identity, the digest stands in for SHA-256 and the archive readers reject their input. A GET of \<open>checksums.txt\<close> answers with one
  manifest line, any other GET with the bytes \<open>new binary\<close>; the only file is the
  executable \<open>/usr/local/bin/app\<close>; the system refuses a rename when \<open>refuse_rename\<close> holds
  and nothing else. The assets are those of the spec's example, and a manifest.
\<close>

definition example_lib :: golib where
  "example_lib =
     \<lparr>unicode_ToLower = (\<lambda>s. s),
      unicode_TrimSpace = (\<lambda>s. s),
      unicode_Fields = (\<lambda>s. [s]),
      sha256_hex = (\<lambda>bytes. ''abc'' @ itoa (length bytes)),
      http_NewRequest = (\<lambda>url. None),
      gzip_NewReader = (\<lambda>r. Inl (ErrorString ''gzip: invalid header'')),
      tar_NewReader = (\<lambda>r. ([], Some (ErrorString ''unexpected EOF''))),
      zip_NewReader = (\<lambda>r n. Inl (ErrorString ''zip: not a valid zip file''))\<rparr>"

definition example_fault :: "bool \<Rightarrow> string \<Rightarrow> string list \<Rightarrow> error option" where
  "example_fault refuse_rename call paths =
     (if refuse_rename \<and> call = ''rename'' then Some (ErrorString ''invalid cross-device link'') else None)"

definition example_world :: "bool \<Rightarrow> world" where
  "example_world refuse_rename =
     \<lparr>files = [''/usr/local/bin/app'' \<mapsto> \<lparr>content = ''old binary'', mode = 493\<rparr>],
      TempDir = ''/tmp'',
      entropy = (\<lambda>n. 1234 + n),
      entropy_used = 0,
      http = (\<lambda>url. if url = ''checksums.txt'' then Inr (''abc10  app_linux_amd64.tar.gz'', None)
                    else Inr (''new binary'', None)),
      requests = [],
      fault = example_fault refuse_rename\<rparr>"

definition example_downloader :: downloader where
  "example_downloader = \<lparr>d_os = ''linux'', d_arch = ''amd64'', d_executablePath = ''/usr/local/bin/app''\<rparr>"

definition example_assets :: "Asset list" where
  "example_assets =
     [\<lparr>BrowserDownloadURL = ''app_linux_amd64.tar.gz''\<rparr>,
      \<lparr>BrowserDownloadURL = ''app_darwin_arm64.zip''\<rparr>,
      \<lparr>BrowserDownloadURL = ''checksums.txt''\<rparr>]"

definition example_validator :: validator where
  "example_validator = \<lparr>v_os = ''linux'', v_arch = ''amd64''\<rparr>"

definition example_versions :: "nat version_lib" where
  "example_versions =
     \<lparr>NewVersion = (\<lambda>s. if s = ''1.0.0'' then Inr 1 else if s = ''2.0.0'' then Inr 2
                          else Inl (ErrorString (''Malformed version: '' @ s))),
      Compare = (\<lambda>a b. int a - int b)\<rparr>"

definition example_getter :: "string \<Rightarrow> string \<Rightarrow> world \<Rightarrow> (error + ReleaseInfo) \<times> world" where
  "example_getter repo' owner' w =
     (Inr \<lparr>TagName = ''2.0.0'', Assets = example_assets\<rparr>,
      w\<lparr>requests := requests w @ [''releases/latest'']\<rparr>)"

definition example_upgrader :: upgrader where
  "example_upgrader =
     NewUpgrader example_lib ''linux'' ''amd64'' example_getter ''apoxy-dev'' ''app'' ''/usr/local/bin/app'' []"

text \<open>
  The tar archive of the spec's example, and the states of the example run: the release
  that the getter returns, the world after the release fetch, what the asset download
  returns, and the world after the asset and the manifest were downloaded.
\<close>

definition example_tar :: "tar_Header list" where
  "example_tar =
     [\<lparr>Typeflag = TypeReg, tar_Name = ''other-linux_amd64'', tar_body = (''other'', None)\<rparr>,
      \<lparr>Typeflag = TypeReg, tar_Name = ''app-linux_amd64'', tar_body = (''app'', None)\<rparr>,
      \<lparr>Typeflag = TypeReg, tar_Name = ''app-linux_amd64.bak'', tar_body = (''bak'', None)\<rparr>]"

definition example_release :: ReleaseInfo where
  "example_release = \<lparr>TagName = ''2.0.0'', Assets = example_assets\<rparr>"

definition example_info :: asset_Info where
  "example_info =
     \<lparr>Checksum = ''abc10'', DownloadedBinaryFilePath = ''/tmp/app1234'',
      PlatformSuffix = ''linux_amd64'', ArSuffix = ''.tar.gz''\<rparr>"

definition example_world_fetched :: "bool \<Rightarrow> world" where
  "example_world_fetched refuse_rename =
     (example_world refuse_rename)\<lparr>requests := [''releases/latest'']\<rparr>"

definition example_world_downloaded :: "bool \<Rightarrow> world" where
  "example_world_downloaded refuse_rename =
     (example_world refuse_rename)
       \<lparr>requests := [''releases/latest'', ''app_linux_amd64.tar.gz'', ''checksums.txt''],
        entropy_used := Suc 0,
        files := [''/usr/local/bin/app'' \<mapsto> \<lparr>content = ''old binary'', mode = 493\<rparr>,
                  ''/tmp/app1234'' \<mapsto> \<lparr>content = ''new binary'', mode = 493\<rparr>]\<rparr>"



section \<open>Properties\<close>

subsection \<open>File extensions and temporary files\<close>

lemma ext_scan_shape:
  "CHR ''.'' \<notin> set after \<Longrightarrow>
   ext_scan cs after = [] \<or> (\<exists>t. ext_scan cs after = CHR ''.'' # t \<and> CHR ''.'' \<notin> set t)"
  by (induction cs arbitrary: after) auto

lemma Ext_shape: "Ext path = [] \<or> (\<exists>t. Ext path = CHR ''.'' # t \<and> CHR ''.'' \<notin> set t)"
  unfolding Ext_def by (rule ext_scan_shape) simp

lemma Ext_not_tar_gz: "Ext path \<noteq> ''.tar.gz''"
  using Ext_shape [of path] by auto

lemma CreateTemp_separator:
  "CHR ''/'' \<in> set pattern \<Longrightarrow>
   os_CreateTemp dir pattern w = (Inl (PathError ''createtemp'' pattern errPatternHasSeparator), w)"
  by (simp add: os_CreateTemp_def prefixAndSuffix_def)

lemma unZip_loop_fails: "\<exists>err. unZip_loop prefix fs w = (Inl err, w)"
  by (induction fs) (auto simp: CreateTemp_separator split: sum.splits)

lemma unTar_fails:
  "unTar L prefix r w =
     (Inl (WrapError ''failed to create temp file: ''
            (PathError ''createtemp'' (''/tmp/'' @ prefix @ ''-*'') errPatternHasSeparator) []), w)"
  by (simp add: unTar_def CreateTemp_separator)

lemma unZip_fails: "\<exists>err. unZip L prefix r w = (Inl err, w)"
  using unZip_loop_fails by (simp add: unZip_def split: sum.splits)

lemma unGz_fails: "\<exists>err. unGz L prefix r w = (Inl err, w)"
  by (simp add: unGz_def CreateTemp_separator split: sum.splits)

lemma unTarGz_fails: "\<exists>err. unTarGz L prefix r w = (Inl err, w)"
  by (simp add: unTarGz_def unTar_fails split: sum.splits)

subsection \<open>The dispatch of \<open>tryUnArchive\<close>\<close>

text \<open>
  C1 (the code departs from the claim). \<open>filepath.Ext\<close> returns the text from the last dot
  of the last path element, so it never returns \<open>.tar.gz\<close>: the first case of the switch
  is selected by no path. For the path \<open>/tmp/app.tar.gz\<close>, which ends in \<open>.tar.gz\<close>, the
  extension is \<open>.gz\<close>, the switch selects the case \<open>.gz\<close>, and \<open>tryUnArchive\<close> runs \<open>unGz\<close>
  (gzip only) on the opened file, not \<open>unTarGz\<close>.
\<close>

theorem tryUnArchive_tar_gz_runs_unGz:
  "switch_ext (Ext arPath) \<noteq> CaseTarGz \<and>
   HasSuffix ''/tmp/app.tar.gz'' ''.tar.gz'' \<and>
   Ext ''/tmp/app.tar.gz'' = ''.gz'' \<and>
   switch_ext (Ext ''/tmp/app.tar.gz'') = CaseGz \<and>
   tryUnArchive L prefix ''/tmp/app.tar.gz'' w =
     (case os_Open ''/tmp/app.tar.gz'' w of
        Inl err \<Rightarrow> (Inl (WrapError ''failed to open file: '' err []), w)
      | Inr f \<Rightarrow> unGz L prefix f w)"
proof -
  have "switch_ext (Ext arPath) \<noteq> CaseTarGz"
    using Ext_not_tar_gz [of arPath] by (simp add: switch_ext_def)
  moreover have "HasSuffix ''/tmp/app.tar.gz'' ''.tar.gz''"
    by (simp add: HasSuffix_def)
  moreover have e: "Ext ''/tmp/app.tar.gz'' = ''.gz''"
    by (simp add: Ext_def)
  moreover have s: "switch_ext (Ext ''/tmp/app.tar.gz'') = CaseGz"
    by (simp add: e switch_ext_def)
  moreover have "tryUnArchive L prefix ''/tmp/app.tar.gz'' w =
     (case os_Open ''/tmp/app.tar.gz'' w of
        Inl err \<Rightarrow> (Inl (WrapError ''failed to open file: '' err []), w)
      | Inr f \<Rightarrow> unGz L prefix f w)"
    by (simp add: tryUnArchive_def s split: sum.splits)
  ultimately show ?thesis by blast
qed

subsection \<open>The extraction helpers\<close>

text \<open>
  C3. For every prefix, every input and every state of the file system, \<open>unTar\<close>, \<open>unZip\<close>
  and \<open>unGz\<close> return an error and leave the world as it was: the pattern
  \<open>"/tmp/" + prefix + "-*"\<close> contains a path separator, \<open>os.CreateTemp\<close> rejects it before
  it creates a file, and no byte of an archive entry is written. \<open>unTar\<close> creates its
  file first, so this is the error it always returns.
\<close>

theorem extraction_helpers_never_succeed:
  "os_CreateTemp [] (''/tmp/'' @ prefix @ ''-*'') w =
     (Inl (PathError ''createtemp'' (''/tmp/'' @ prefix @ ''-*'') errPatternHasSeparator), w) \<and>
   unTar L prefix r w =
     (Inl (WrapError ''failed to create temp file: ''
            (PathError ''createtemp'' (''/tmp/'' @ prefix @ ''-*'') errPatternHasSeparator) []), w) \<and>
   (\<exists>err. unZip L prefix r w = (Inl err, w)) \<and>
   (\<exists>err. unGz L prefix r w = (Inl err, w))"
proof -
  have "\<exists>err. unZip L prefix r w = (Inl err, w)"
    using unZip_loop_fails by (simp add: unZip_def split: sum.splits)
  moreover have "\<exists>err. unGz L prefix r w = (Inl err, w)"
    by (simp add: unGz_def CreateTemp_separator split: sum.splits)
  ultimately show ?thesis
    by (simp add: unTar_def CreateTemp_separator)
qed

text \<open>
  C4 (the code departs from the claim). On the spec's example, a tar archive with the
  regular files \<open>other-linux_amd64\<close>, \<open>app-linux_amd64\<close>, \<open>app-linux_amd64.bak\<close> and the
  prefix \<open>app-linux_amd64\<close>, \<open>unTar\<close> extracts nothing: it fails on creating its
  temporary file, before it reads the first header. The loop of \<open>unTar\<close>, run with a file
  to write to on an archive without a match, ends with the error
  \<open>file not found in archive\<close>, which does not name the prefix; the loop of \<open>unZip\<close> ends
  with \<open>no file found with prefix: app-linux_amd64\<close>.
\<close>

theorem unTar_spec_example_extracts_nothing:
  "unTar (L\<lparr>tar_NewReader := (\<lambda>r. (example_tar, None))\<rparr>) ''app-linux_amd64'' r w =
     (Inl (WrapError ''failed to create temp file: ''
            (PathError ''createtemp'' ''/tmp/app-linux_amd64-*'' errPatternHasSeparator) []), w) \<and>
   unTar_loop ''app-linux_amd64'' out
       [\<lparr>Typeflag = TypeReg, tar_Name = ''other-linux_amd64'', tar_body = (''other'', None)\<rparr>] None w =
     (Inl (ErrorString ''file not found in archive''), w) \<and>
   unZip_loop ''app-linux_amd64''
       [\<lparr>zip_Name = ''other-linux_amd64'', zip_Open = Inr (''other'', None)\<rparr>] w =
     (Inl (ErrorString ''no file found with prefix: app-linux_amd64''), w)"
proof -
  have b: "Base ''other-linux_amd64'' = ''other-linux_amd64''"
    by (simp add: Base_def)
  have p: "\<not> HasPrefix ''other-linux_amd64'' ''app-linux_amd64''"
    by (simp add: HasPrefix_def)
  show ?thesis
    by (simp add: unTar_fails b p)
qed

subsection \<open>The example inputs, evaluated\<close>

lemma ToLower_example_asset:
  "ToLower L ''app_linux_amd64.tar.gz'' = ''app_linux_amd64.tar.gz''"
  by (simp add: ToLower_def isASCII_def lowerByte_def)


lemma manifest_key_example: "manifest_key L ''app_linux_amd64.tar.gz'' = ''app_linux_amd64''"
  by (simp add: manifest_key_def ToLower_example_asset archive_suffixes_def TrimSuffix_def HasSuffix_def)




subsection \<open>Asset selection\<close>

lemma TrimSuffix_changes: "s \<noteq> [] \<Longrightarrow> (TrimSuffix u s \<noteq> u) = HasSuffix u s"
  by (auto simp: TrimSuffix_def HasSuffix_def)

lemma TrimSuffix_take: "HasSuffix u s \<Longrightarrow> TrimSuffix u s = take (length u - length s) u"
  by (simp add: TrimSuffix_def)

lemma trim_first_Cons:
  "s \<noteq> [] \<Longrightarrow>
   trim_first (s # ss) u =
     (if HasSuffix u s then (s, take (length u - length s) u) else trim_first ss u)"
  using TrimSuffix_changes [of s u] by (simp add: Let_def TrimSuffix_take)

lemma trim_first_find:
  "[] \<notin> set ss \<Longrightarrow>
   trim_first ss u =
     (case List.find (HasSuffix u) ss of None \<Rightarrow> ([], u) | Some s \<Rightarrow> (s, take (length u - length s) u))"
proof (induction ss)
  case Nil
  then show ?case by simp
next
  case (Cons s ss)
  then have ne: "s \<noteq> []" and ih: "trim_first ss u =
     (case List.find (HasSuffix u) ss of None \<Rightarrow> ([], u) | Some s \<Rightarrow> (s, take (length u - length s) u))"
    by auto
  show ?case
    unfolding trim_first_Cons [OF ne] ih by simp
qed

lemma trim_first_spec: "trim_first archive_suffixes u = (spec_archive_suffix u, spec_normalize u)"
proof -
  have "[] \<notin> set archive_suffixes" by (simp add: archive_suffixes_def)
  then show ?thesis
    by (simp add: trim_first_find spec_archive_suffix_def spec_normalize_def split: option.splits)
qed

lemma DownloadAsset_loop_find:
  "DownloadAsset_loop L d target assets w =
     (case List.find (spec_matches L target) assets of
        None \<Rightarrow> (Inl (WrapError [] ErrNoAsset ('': os:'' @ d_os d @ '' arch:'' @ d_arch d)), w)
      | Some a \<Rightarrow>
          (case downloadAsset L d (BrowserDownloadURL a) w of
             (Inl err, w1) \<Rightarrow> (Inl err, w1)
           | (Inr (info, c), w1) \<Rightarrow>
               (Inr (info\<lparr>PlatformSuffix := target,
                          ArSuffix := spec_archive_suffix (ToLower L (BrowserDownloadURL a))\<rparr>, Some c), w1)))"
  by (induction assets) (simp_all add: trim_first_spec spec_matches_def)

lemma tar_gz_wins: "HasSuffix u ''.tar.gz'' \<Longrightarrow> spec_archive_suffix u = ''.tar.gz''"
  by (simp add: spec_archive_suffix_def archive_suffixes_def)


text \<open>
  C9. \<open>DownloadAsset\<close> takes the first asset that matches the target \<open><os>_<arch>\<close> in the
  spec's sense (lower-cased URL, one archive suffix stripped, \<open>.tar.gz\<close> tried before
  \<open>.tar\<close>) and downloads it; when the download succeeds it returns the download's result
  with the platform suffix and the detected archive suffix (empty when none was stripped),
  and when it fails it returns the download's error. A URL that ends in \<open>.tar.gz\<close> reports
  \<open>.tar.gz\<close>. When no asset matches, the error wraps \<open>ErrNoAsset\<close> and its message names
  the OS and the architecture.
\<close>

theorem DownloadAsset_first_match:
  "DownloadAsset L d assets w =
     (case List.find (spec_matches L (d_os d @ ''_'' @ d_arch d)) assets of
        None \<Rightarrow> (Inl (WrapError [] ErrNoAsset ('': os:'' @ d_os d @ '' arch:'' @ d_arch d)), w)
      | Some a \<Rightarrow>
          (case downloadAsset L d (BrowserDownloadURL a) w of
             (Inl err, w1) \<Rightarrow> (Inl err, w1)
           | (Inr (info, c), w1) \<Rightarrow>
               (Inr (info\<lparr>PlatformSuffix := d_os d @ ''_'' @ d_arch d,
                          ArSuffix := spec_archive_suffix (ToLower L (BrowserDownloadURL a))\<rparr>, Some c), w1))) \<and>
   (HasSuffix u ''.tar.gz'' \<longrightarrow> spec_archive_suffix u = ''.tar.gz'') \<and>
   Error (WrapError [] ErrNoAsset ('': os:'' @ d_os d @ '' arch:'' @ d_arch d)) =
     ''no asset found: os:'' @ d_os d @ '' arch:'' @ d_arch d"
proof -
  have found: "DownloadAsset L d assets w =
     (case List.find (spec_matches L (d_os d @ ''_'' @ d_arch d)) assets of
        None \<Rightarrow> (Inl (WrapError [] ErrNoAsset ('': os:'' @ d_os d @ '' arch:'' @ d_arch d)), w)
      | Some a \<Rightarrow>
          (case downloadAsset L d (BrowserDownloadURL a) w of
             (Inl err, w1) \<Rightarrow> (Inl err, w1)
           | (Inr (info, c), w1) \<Rightarrow>
               (Inr (info\<lparr>PlatformSuffix := d_os d @ ''_'' @ d_arch d,
                          ArSuffix := spec_archive_suffix (ToLower L (BrowserDownloadURL a))\<rparr>, Some c), w1)))"
    unfolding DownloadAsset_def by (rule DownloadAsset_loop_find)
  have msg: "Error (WrapError [] ErrNoAsset ('': os:'' @ d_os d @ '' arch:'' @ d_arch d)) =
     ''no asset found: os:'' @ d_os d @ '' arch:'' @ d_arch d"
    by (simp add: ErrNoAsset_def)
  show ?thesis
    by (rule conjI [OF found conjI [OF _ msg]]) (simp add: tar_gz_wins)
qed

theorem DownloadAsset_first_match_witness:
  "HasSuffix ''app_linux_amd64.tar.gz'' ''.tar.gz'' \<and>
   spec_archive_suffix ''app_linux_amd64.tar.gz'' = ''.tar.gz'' \<and>
   (case fst (DownloadAsset example_lib example_downloader example_assets (example_world False)) of
      Inl err \<Rightarrow> False
    | Inr (info, c) \<Rightarrow>
        ArSuffix info = ''.tar.gz'' \<and> PlatformSuffix info = ''linux_amd64'' \<and>
        DownloadedBinaryFilePath info = ''/tmp/app1234'') \<and>
   requests (snd (DownloadAsset example_lib example_downloader example_assets (example_world False))) =
     [''app_linux_amd64.tar.gz'']"
proof -
  have suf: "HasSuffix ''app_linux_amd64.tar.gz'' ''.tar.gz''"
    by (simp add: HasSuffix_def)
  have low: "ToLower example_lib ''app_linux_amd64.tar.gz'' = ''app_linux_amd64.tar.gz''"
    by (simp add: ToLower_def isASCII_def lowerByte_def)
  have m: "List.find (spec_matches example_lib ''linux_amd64'') example_assets =
             Some \<lparr>BrowserDownloadURL = ''app_linux_amd64.tar.gz''\<rparr>"
    by (simp add: example_assets_def spec_matches_def low spec_normalize_def spec_archive_suffix_def
        archive_suffixes_def HasSuffix_def)
  have dl: "downloadAsset example_lib example_downloader ''app_linux_amd64.tar.gz'' (example_world False) =
      (Inr (\<lparr>Checksum = ''abc10'', DownloadedBinaryFilePath = ''/tmp/app1234'',
              PlatformSuffix = [], ArSuffix = []\<rparr>, os_Remove ''/tmp/app1234''),
       example_world False\<lparr>requests := [''app_linux_amd64.tar.gz''], entropy_used := 1,
          files := [''/usr/local/bin/app'' \<mapsto> \<lparr>content = ''old binary'', mode = 493\<rparr>,
                    ''/tmp/app1234'' \<mapsto> \<lparr>content = ''new binary'', mode = 493\<rparr>]\<rparr>)"
    by (simp add: downloadAsset_def example_lib_def example_downloader_def example_world_def example_fault_def itoa.simps
        Base_def http_Do_def os_CreateTemp_def prefixAndSuffix_def joinPath_def
        createTemp_loop.simps nextRandom_def io_Copy_def os_Chmod_def Let_def)
  from DownloadAsset_first_match [of example_lib example_downloader example_assets "example_world False"
      "''app_linux_amd64.tar.gz''"] suf
  have r: "DownloadAsset example_lib example_downloader example_assets (example_world False) =
      (case List.find (spec_matches example_lib (d_os example_downloader @ ''_'' @ d_arch example_downloader)) example_assets of
        None \<Rightarrow> (Inl (WrapError [] ErrNoAsset ('': os:'' @ d_os example_downloader @ '' arch:'' @ d_arch example_downloader)), example_world False)
      | Some a \<Rightarrow>
          (case downloadAsset example_lib example_downloader (BrowserDownloadURL a) (example_world False) of
             (Inl err, w1) \<Rightarrow> (Inl err, w1)
           | (Inr (info, c), w1) \<Rightarrow>
               (Inr (info\<lparr>PlatformSuffix := d_os example_downloader @ ''_'' @ d_arch example_downloader,
                          ArSuffix := spec_archive_suffix (ToLower example_lib (BrowserDownloadURL a))\<rparr>, Some c), w1)))"
    and ar: "spec_archive_suffix ''app_linux_amd64.tar.gz'' = ''.tar.gz''"
    by blast+
  have d: "d_os example_downloader @ ''_'' @ d_arch example_downloader = ''linux_amd64''"
    by (simp add: example_downloader_def)
  show ?thesis
    unfolding r d m by (simp add: suf ar dl low)
qed

subsection \<open>The checksum manifest\<close>
























text \<open>
  C5 (the code departs from the claim). For the file name \<open>app_linux_amd64.gz.zip\<close> the
  manifest key is \<open>app_linux_amd64\<close>: the loop of \<open>downloadCheckSum\<close> has no \<open>break\<close> and
  strips \<open>.zip\<close> and then \<open>.gz\<close>. The loop of \<open>DownloadAsset\<close> stops at the first suffix it
  strips and leaves \<open>app_linux_amd64.gz\<close>, as stripping one suffix does.
\<close>

theorem manifest_key_strips_two_suffixes:
  "manifest_key L ''app_linux_amd64.gz.zip'' = ''app_linux_amd64'' \<and>
   trim_first archive_suffixes (ToLower L ''app_linux_amd64.gz.zip'') = (''.zip'', ''app_linux_amd64.gz'') \<and>
   spec_normalize (ToLower L ''app_linux_amd64.gz.zip'') = ''app_linux_amd64.gz''"
proof -
  have low: "ToLower L ''app_linux_amd64.gz.zip'' = ''app_linux_amd64.gz.zip''"
    by (simp add: ToLower_def isASCII_def lowerByte_def)
  have k: "manifest_key L ''app_linux_amd64.gz.zip'' = ''app_linux_amd64''"
    by (simp add: manifest_key_def low archive_suffixes_def TrimSuffix_def HasSuffix_def)
  have t: "trim_first archive_suffixes ''app_linux_amd64.gz.zip'' = (''.zip'', ''app_linux_amd64.gz'')"
    by (simp add: archive_suffixes_def TrimSuffix_def HasSuffix_def)
  have n: "spec_normalize ''app_linux_amd64.gz.zip'' = ''app_linux_amd64.gz''"
    using t by (simp add: trim_first_spec)
  show ?thesis by (simp only: low k t n)
qed

subsection \<open>Checksum validation\<close>

text \<open>
  C10, as stated, fails: with the stored checksum \<open>ABC123\<close> under the key
  \<open>app_linux_amd64\<close> and the digest \<open>abc123\<close>, the two are the same ignoring case, and
  \<open>IsCheckSumValid\<close> returns false.
\<close>

theorem IsCheckSumValid_exact_counterexample:
  "Mapping.lookup (Mapping.update ''app_linux_amd64'' ''ABC123'' Mapping.empty) ''app_linux_amd64'' = Some ''ABC123'' \<and>
   same_ignoring_case example_lib ''ABC123'' ''abc123'' \<and>
   \<not> IsCheckSumValid example_validator ''app''
       \<lparr>Checksums = Mapping.update ''app_linux_amd64'' ''ABC123'' Mapping.empty\<rparr> ''abc123''"
  by (simp add: same_ignoring_case_def ToLower_def isASCII_def lowerByte_def IsCheckSumValid_def
      example_validator_def)

text \<open>
  C10, amended. \<open>IsCheckSumValid\<close> looks up the key \<open><binary>_<os>_<arch>\<close>; when the key is
  absent it returns false; when it is present it returns true if and only if the stored
  checksum is equal to the digest, byte for byte. For a stored checksum and a digest that
  are both in lower case, that is equality ignoring case.
\<close>

theorem IsCheckSumValid_exact:
  "(Mapping.lookup (Checksums info) (binary @ ''_'' @ v_os v @ ''_'' @ v_arch v) = None \<longrightarrow>
      \<not> IsCheckSumValid v binary info digest) \<and>
   (Mapping.lookup (Checksums info) (binary @ ''_'' @ v_os v @ ''_'' @ v_arch v) = Some stored \<longrightarrow>
      IsCheckSumValid v binary info digest = (stored = digest)) \<and>
   (Mapping.lookup (Checksums info) (binary @ ''_'' @ v_os v @ ''_'' @ v_arch v) = Some stored \<and>
    ToLower L stored = stored \<and> ToLower L digest = digest \<longrightarrow>
      IsCheckSumValid v binary info digest = same_ignoring_case L stored digest)"
  by (simp add: IsCheckSumValid_def same_ignoring_case_def)

theorem IsCheckSumValid_exact_witness:
  "Mapping.lookup (Mapping.update ''app_linux_amd64'' ''abc123'' Mapping.empty) ''app_linux_amd64'' = Some ''abc123'' \<and>
   Mapping.lookup (Mapping.update ''app_linux_amd64'' ''abc123'' Mapping.empty) ''app_darwin_arm64'' = None \<and>
   ToLower example_lib ''abc123'' = ''abc123'' \<and>
   IsCheckSumValid example_validator ''app''
     \<lparr>Checksums = Mapping.update ''app_linux_amd64'' ''abc123'' Mapping.empty\<rparr> ''abc123'' \<and>
   \<not> IsCheckSumValid example_validator ''app''
     \<lparr>Checksums = Mapping.update ''app_linux_amd64'' ''abc123'' Mapping.empty\<rparr> ''abc124'' \<and>
   \<not> IsCheckSumValid \<lparr>v_os = ''darwin'', v_arch = ''arm64''\<rparr> ''app''
     \<lparr>Checksums = Mapping.update ''app_linux_amd64'' ''abc123'' Mapping.empty\<rparr> ''abc123''"
proof -
  let ?info = "\<lparr>Checksums = Mapping.update ''app_linux_amd64'' ''abc123'' Mapping.empty\<rparr>"
  have k1: "Mapping.lookup (Checksums ?info) (''app'' @ ''_'' @ v_os example_validator @ ''_'' @ v_arch example_validator) = Some ''abc123''"
    by (simp add: example_validator_def)
  have k2: "Mapping.lookup (Checksums ?info)
      (''app'' @ ''_'' @ v_os \<lparr>v_os = ''darwin'', v_arch = ''arm64''\<rparr> @ ''_'' @ v_arch \<lparr>v_os = ''darwin'', v_arch = ''arm64''\<rparr>) = None"
    by simp
  have low: "ToLower example_lib ''abc123'' = ''abc123''"
    by (simp add: ToLower_def isASCII_def lowerByte_def)
  have a: "IsCheckSumValid example_validator ''app'' ?info ''abc123''"
    unfolding IsCheckSumValid_exact [where L = example_lib, THEN conjunct2, THEN conjunct1, THEN mp, OF k1]
    by (rule refl)
  have b: "\<not> IsCheckSumValid example_validator ''app'' ?info ''abc124''"
    unfolding IsCheckSumValid_exact [where L = example_lib, THEN conjunct2, THEN conjunct1, THEN mp, OF k1]
    by simp
  have c: "\<not> IsCheckSumValid \<lparr>v_os = ''darwin'', v_arch = ''arm64''\<rparr> ''app'' ?info ''abc123''"
    by (rule IsCheckSumValid_exact [where L = example_lib and stored = "[]", THEN conjunct1, THEN mp, OF k2])
  have k1': "Mapping.lookup (Mapping.update ''app_linux_amd64'' ''abc123'' Mapping.empty) ''app_linux_amd64'' = Some ''abc123''"
    by simp
  have k2': "Mapping.lookup (Mapping.update ''app_linux_amd64'' ''abc123'' Mapping.empty) ''app_darwin_arm64'' = None"
    by simp
  from k1' k2' low a b c show ?thesis by (intro conjI)
qed

subsection \<open>Frames: what the extraction, the temporary file and the download touch\<close>

lemma tryUnArchive_frame:
  assumes "tryUnArchive L prefix arPath w = (res, w')"
  shows "w' = w \<and> (\<forall>t. res = Inr t \<longrightarrow> t = arPath \<and> Ext arPath = [] \<and> files w arPath \<noteq> None)"
proof (cases "os_Open arPath w")
  case (Inl err)
  with assms show ?thesis by (auto simp: tryUnArchive_def)
next
  case (Inr f)
  then have ex: "files w arPath \<noteq> None"
    by (auto simp: os_Open_def split: option.splits)
  obtain e1 e2 e3 e4 where
    "unTarGz L prefix f w = (Inl e1, w)" "unZip L prefix f w = (Inl e2, w)"
    "unTar L prefix f w = (Inl e3, w)" "unGz L prefix f w = (Inl e4, w)"
    using unTarGz_fails unZip_fails unTar_fails unGz_fails by metis
  with assms Inr ex show ?thesis
    by (cases "switch_ext (Ext arPath)")
       (auto simp: tryUnArchive_def switch_ext_def split: if_splits)
qed

lemma itoa_digits: "set (itoa n) \<subseteq> set ''0123456789''"
proof (induction n rule: itoa.induct)
  case (1 n)
  have d: "\<And>k. k < 10 \<Longrightarrow> ''0123456789'' ! k \<in> set ''0123456789''"
    by (rule nth_mem) simp
  show ?case
  proof (cases "n < 10")
    case True
    then show ?thesis using d [of n] by (subst itoa.simps) simp
  next
    case False
    have "n mod 10 < 10" by simp
    with False 1 d [of "n mod 10"] show ?thesis by (subst itoa.simps) simp
  qed
qed

lemma itoa_no_dot: "CHR ''.'' \<notin> set (itoa n)"
proof -
  have "CHR ''.'' \<notin> set ''0123456789''" by simp
  with itoa_digits [of n] show ?thesis by blast
qed

lemma itoa_no_slash: "CHR ''/'' \<notin> set (itoa n)"
proof -
  have "CHR ''/'' \<notin> set ''0123456789''" by simp
  with itoa_digits [of n] show ?thesis by blast
qed

lemma ext_scan_last_element:
  "CHR ''.'' \<notin> set xs \<Longrightarrow> ext_scan (xs @ CHR ''/'' # ys) after = []"
  by (induction xs arbitrary: after) auto

lemma Ext_last_element:
  "CHR ''.'' \<notin> set name \<Longrightarrow> Ext (dir @ CHR ''/'' # name) = []"
  using ext_scan_last_element [of "rev name" "rev dir" "[]"] by (simp add: Ext_def)

lemma joinPath_shape: "\<exists>dir'. joinPath dir name = dir' @ CHR ''/'' # name"
proof (cases "dir \<noteq> [] \<and> last dir = CHR ''/''")
  case True
  then have "butlast dir @ [CHR ''/''] = dir" using append_butlast_last_id [of dir] by simp
  then have "dir @ name = butlast dir @ CHR ''/'' # name"
    by (metis append_Cons append_Nil append_assoc)
  with True have "joinPath dir name = butlast dir @ CHR ''/'' # name"
    by (simp add: joinPath_def)
  then show ?thesis by (rule exI)
next
  case False
  then have "joinPath dir name = dir @ CHR ''/'' # name" by (auto simp: joinPath_def)
  then show ?thesis by (rule exI)
qed

lemma set_tl_subset: "set (tl xs) \<subseteq> set xs"
  by (cases xs) auto

lemma if_splits_disj: "(if c then a else b) = a \<or> (if c then a else b) = b"
  by simp

lemma prefixAndSuffix_chars:
  assumes "prefixAndSuffix pattern = Inr (pre, suf)"
  shows "set pre \<subseteq> set pattern \<and> set suf \<subseteq> set pattern"
proof (cases "CHR ''*'' \<in> set pattern")
  case True
  have d: "set (dropWhile (\<lambda>c. c \<noteq> CHR ''*'') (rev pattern)) \<subseteq> set (rev pattern)"
    by (auto dest: set_dropWhileD)
  have "set (tl (dropWhile (\<lambda>c. c \<noteq> CHR ''*'') (rev pattern)))
      \<subseteq> set (dropWhile (\<lambda>c. c \<noteq> CHR ''*'') (rev pattern))"
    by (rule set_tl_subset)
  with d have 1: "set (rev (tl (dropWhile (\<lambda>c. c \<noteq> CHR ''*'') (rev pattern)))) \<subseteq> set pattern"
    by auto
  have 2: "set (rev (takeWhile (\<lambda>c. c \<noteq> CHR ''*'') (rev pattern))) \<subseteq> set pattern"
    by (auto dest: set_takeWhileD)
  have "prefixAndSuffix pattern = Inl errPatternHasSeparator \<or>
        prefixAndSuffix pattern =
          Inr (rev (tl (dropWhile (\<lambda>c. c \<noteq> CHR ''*'') (rev pattern))),
               rev (takeWhile (\<lambda>c. c \<noteq> CHR ''*'') (rev pattern)))"
    unfolding prefixAndSuffix_def using True by (simp only: if_True) (rule if_splits_disj)
  with assms 1 2 show ?thesis by auto
next
  case False
  have "prefixAndSuffix pattern = Inl errPatternHasSeparator \<or> prefixAndSuffix pattern = Inr (pattern, [])"
    unfolding prefixAndSuffix_def using False by (simp only: if_False) (rule if_splits_disj)
  with assms show ?thesis by auto
qed

lemma createTemp_loop_unfold:
  "createTemp_loop tries prefix suffix w =
     (case fault w ''open'' [prefix @ itoa (entropy w (entropy_used w) mod 2 ^ 32) @ suffix] of
        Some e \<Rightarrow>
          (Inl (PathError ''open'' (prefix @ itoa (entropy w (entropy_used w) mod 2 ^ 32) @ suffix) e),
           w\<lparr>entropy_used := entropy_used w + 1\<rparr>)
      | None \<Rightarrow>
          if files w (prefix @ itoa (entropy w (entropy_used w) mod 2 ^ 32) @ suffix) \<noteq> None
          then (if tries + 1 < 10000
                then createTemp_loop (tries + 1) prefix suffix (w\<lparr>entropy_used := entropy_used w + 1\<rparr>)
                else (Inl (PathError ''createtemp'' (prefix @ ''*'' @ suffix) ErrExist),
                      w\<lparr>entropy_used := entropy_used w + 1\<rparr>))
          else (Inr (prefix @ itoa (entropy w (entropy_used w) mod 2 ^ 32) @ suffix),
                w\<lparr>entropy_used := entropy_used w + 1,
                  files := (files w)(prefix @ itoa (entropy w (entropy_used w) mod 2 ^ 32) @ suffix \<mapsto>
                             \<lparr>content = [], mode = 384\<rparr>)\<rparr>))"
  by (subst createTemp_loop.simps) (auto simp: nextRandom_def Let_def split: option.splits)

lemma createTemp_loop_result:
  "createTemp_loop n p s w = (res, w') \<Longrightarrow>
   (case res of
      Inl err \<Rightarrow> files w' = files w
    | Inr name \<Rightarrow> (\<exists>r. name = p @ itoa r @ s) \<and> files w name = None \<and>
        files w' = (files w)(name \<mapsto> \<lparr>content = [], mode = 384\<rparr>))"
proof (induction n p s w rule: createTemp_loop.induct)
  case (1 tries prefix suffix w)
  let ?name = "prefix @ itoa (entropy w (entropy_used w) mod 2 ^ 32) @ suffix"
  let ?w1 = "w\<lparr>entropy_used := entropy_used w + 1\<rparr>"
  note u = createTemp_loop_unfold [of tries prefix suffix w]
  show ?case
  proof (cases "fault w ''open'' [?name]")
    case (Some e)
    with u "1.prems" show ?thesis by auto
  next
    case None
    show ?thesis
    proof (cases "files w ?name = None")
      case True
      with u None "1.prems" show ?thesis by auto
    next
      case False
      show ?thesis
      proof (cases "tries + 1 < 10000")
        case True
        with u None False "1.prems" have rec: "createTemp_loop (tries + 1) prefix suffix ?w1 = (res, w')"
          by simp
        have "nextRandom w = (itoa (entropy w (entropy_used w) mod 2 ^ 32), ?w1)"
          by (simp add: nextRandom_def)
        moreover have "fault ?w1 ''open'' [?name] = None" using None by simp
        moreover have "files ?w1 ?name \<noteq> None" using False by simp
        ultimately have "case res of
            Inl err \<Rightarrow> files w' = files ?w1
          | Inr name \<Rightarrow> (\<exists>r. name = prefix @ itoa r @ suffix) \<and> files ?w1 name = None \<and>
              files w' = (files ?w1)(name \<mapsto> \<lparr>content = [], mode = 384\<rparr>)"
          using "1.IH" [OF _ refl _ _ True rec] by simp
        then show ?thesis by (simp split: sum.splits)
      next
        case F: False
        with u None False "1.prems" show ?thesis by auto
      qed
    qed
  qed
qed

lemma os_CreateTemp_result:
  assumes "os_CreateTemp dir pattern w = (res, w')"
  shows "case res of
      Inl err \<Rightarrow> files w' = files w
    | Inr name \<Rightarrow> files w name = None \<and>
        files w' = (files w)(name \<mapsto> \<lparr>content = [], mode = 384\<rparr>) \<and>
        (CHR ''.'' \<notin> set pattern \<longrightarrow> Ext name = [])"
proof (cases "prefixAndSuffix pattern")
  case (Inl err)
  with assms show ?thesis by (auto simp: os_CreateTemp_def)
next
  case (Inr ps)
  obtain pre suf where ps: "ps = (pre, suf)" by (cases ps)
  let ?dir = "if dir = [] then TempDir w else dir"
  from assms Inr ps have loop: "createTemp_loop 0 (joinPath ?dir pre) suf w = (res, w')"
    by (simp add: os_CreateTemp_def Let_def)
  note r = createTemp_loop_result [OF loop]
  show ?thesis
  proof (cases res)
    case (Inl err)
    with r show ?thesis by simp
  next
    case (Inr name)
    with r obtain n where name: "name = joinPath ?dir pre @ itoa n @ suf"
      and fresh: "files w name = None"
      and made: "files w' = (files w)(name \<mapsto> \<lparr>content = [], mode = 384\<rparr>)"
      by auto
    have "CHR ''.'' \<notin> set pattern \<longrightarrow> Ext name = []"
    proof
      assume nd: "CHR ''.'' \<notin> set pattern"
      from prefixAndSuffix_chars [of pattern pre suf] \<open>prefixAndSuffix pattern = Inr ps\<close> ps nd
      have "CHR ''.'' \<notin> set pre" "CHR ''.'' \<notin> set suf" by auto
      with itoa_no_dot [of n] have nodot: "CHR ''.'' \<notin> set (pre @ itoa n @ suf)" by simp
      obtain dir' where "joinPath ?dir pre = dir' @ CHR ''/'' # pre"
        using joinPath_shape by blast
      with name have "name = dir' @ CHR ''/'' # (pre @ itoa n @ suf)" by simp
      with Ext_last_element [OF nodot] show "Ext name = []" by simp
    qed
    with Inr fresh made show ?thesis by simp
  qed
qed

lemma os_Remove_files:
  "files (snd (os_Remove name w)) p = (if p = name then (if fault w ''remove'' [name] = None then None else files w p) else files w p)"
  by (auto simp: os_Remove_def split: option.splits)

lemma downloadAsset_result:
  assumes "downloadAsset L d url w = (res, w')"
  shows "case res of
      Inl err \<Rightarrow> (\<forall>p. files w p \<noteq> None \<longrightarrow> files w' p = files w p)
    | Inr (info, c) \<Rightarrow>
        files w (DownloadedBinaryFilePath info) = None \<and>
        c = os_Remove (DownloadedBinaryFilePath info) \<and>
        (\<forall>p. p \<noteq> DownloadedBinaryFilePath info \<longrightarrow> files w' p = files w p) \<and>
        (CHR ''.'' \<notin> set (Base (d_executablePath d)) \<longrightarrow> Ext (DownloadedBinaryFilePath info) = [])"
proof (cases "http_NewRequest L url")
  case (Some err)
  with assms show ?thesis by (auto simp: downloadAsset_def)
next
  case None
  let ?w1 = "w\<lparr>requests := requests w @ [url]\<rparr>"
  show ?thesis
  proof (cases "http w url")
    case (Inl err)
    with assms None show ?thesis by (auto simp: downloadAsset_def http_Do_def)
  next
    case (Inr body)
    obtain r2 w2 where ct: "os_CreateTemp [] (Base (d_executablePath d)) ?w1 = (r2, w2)"
      by (cases "os_CreateTemp [] (Base (d_executablePath d)) ?w1")
    note cr = os_CreateTemp_result [OF ct]
    show ?thesis
    proof (cases r2)
      case (Inl err)
      with assms None Inr ct cr show ?thesis
        by (auto simp: downloadAsset_def http_Do_def)
    next
      case tmp: (Inr tmpFile)
      with cr have fresh: "files w tmpFile = None"
        and made: "files w2 = (files w)(tmpFile \<mapsto> \<lparr>content = [], mode = 384\<rparr>)"
        and ext: "CHR ''.'' \<notin> set (Base (d_executablePath d)) \<longrightarrow> Ext tmpFile = []"
        by auto
      obtain e3 w3 where cp: "io_Copy tmpFile body w2 = (e3, w3)"
        by (cases "io_Copy tmpFile body w2")
      with made have f3: "\<forall>p. p \<noteq> tmpFile \<longrightarrow> files w3 p = files w p"
        by (auto simp: io_Copy_def)
      obtain e4 w4 where ch: "os_Chmod tmpFile 493 w3 = (e4, w4)"
        by (cases "os_Chmod tmpFile 493 w3")
      with f3 have f4: "\<forall>p. p \<noteq> tmpFile \<longrightarrow> files w4 p = files w p"
        by (auto simp: os_Chmod_def split: option.splits)
      have rm3: "\<forall>p. p \<noteq> tmpFile \<longrightarrow> files (snd (os_Remove tmpFile w3)) p = files w p"
        using f3 by (simp add: os_Remove_files)
      have rm4: "\<forall>p. p \<noteq> tmpFile \<longrightarrow> files (snd (os_Remove tmpFile w4)) p = files w p"
        using f4 by (simp add: os_Remove_files)
      from assms None Inr ct tmp cp ch
      have "res = Inl (the e3) \<and> w' = snd (os_Remove tmpFile w3) \<or>
            res = Inl (the e4) \<and> w' = snd (os_Remove tmpFile w4) \<or>
            res = Inr (\<lparr>Checksum = sha256_hex L (fst body), DownloadedBinaryFilePath = tmpFile,
                         PlatformSuffix = [], ArSuffix = []\<rparr>, os_Remove tmpFile) \<and> w' = w4"
        by (auto simp: downloadAsset_def http_Do_def Let_def split: option.splits)
      moreover have "\<forall>p. files w p \<noteq> None \<longrightarrow> files (snd (os_Remove tmpFile w3)) p = files w p"
      proof (intro allI impI)
        fix p assume "files w p \<noteq> None"
        with fresh have "p \<noteq> tmpFile" by auto
        with rm3 show "files (snd (os_Remove tmpFile w3)) p = files w p" by simp
      qed
      moreover have "\<forall>p. files w p \<noteq> None \<longrightarrow> files (snd (os_Remove tmpFile w4)) p = files w p"
      proof (intro allI impI)
        fix p assume "files w p \<noteq> None"
        with fresh have "p \<noteq> tmpFile" by auto
        with rm4 show "files (snd (os_Remove tmpFile w4)) p = files w p" by simp
      qed
      ultimately show ?thesis using fresh ext f4 by auto
    qed
  qed
qed

lemma DownloadAsset_result:
  assumes "DownloadAsset L d assets w = (res, w')"
  shows "case res of
      Inl err \<Rightarrow> (\<forall>p. files w p \<noteq> None \<longrightarrow> files w' p = files w p)
    | Inr (info, c) \<Rightarrow>
        files w (DownloadedBinaryFilePath info) = None \<and>
        c = Some (os_Remove (DownloadedBinaryFilePath info)) \<and>
        (\<forall>p. p \<noteq> DownloadedBinaryFilePath info \<longrightarrow> files w' p = files w p) \<and>
        (CHR ''.'' \<notin> set (Base (d_executablePath d)) \<longrightarrow> Ext (DownloadedBinaryFilePath info) = [])"
proof (cases "List.find (spec_matches L (d_os d @ ''_'' @ d_arch d)) assets")
  case None
  with assms show ?thesis
    unfolding DownloadAsset_def DownloadAsset_loop_find by auto
next
  case (Some a)
  obtain r1 w1 where dl: "downloadAsset L d (BrowserDownloadURL a) w = (r1, w1)"
    by (cases "downloadAsset L d (BrowserDownloadURL a) w")
  note dr = downloadAsset_result [OF dl]
  from assms Some dl dr show ?thesis
    unfolding DownloadAsset_def DownloadAsset_loop_find
    by (cases r1) auto
qed

lemma downloadCheckSum_files: "files (snd (downloadCheckSum L url w)) = files w"
  by (auto simp: downloadCheckSum_def http_Do_def split: option.splits sum.splits)

lemma Download_files: "files (snd (Download L c assets w)) = files w"
  by (induction assets) (simp_all add: downloadCheckSum_files)

lemma install_frame:
  assumes "install L u name info w = (Some e, w')"
    and "DownloadedBinaryFilePath info \<noteq> executablePath u"
  shows "files w' (executablePath u) = files w (executablePath u)"
proof -
  obtain r1 w1 where t: "tryUnArchive L name (DownloadedBinaryFilePath info) w = (r1, w1)"
    by (cases "tryUnArchive L name (DownloadedBinaryFilePath info) w")
  from tryUnArchive_frame [OF t] have w1: "w1 = w"
    and tf: "\<forall>t. r1 = Inr t \<longrightarrow> t = DownloadedBinaryFilePath info" by auto
  show ?thesis
  proof (cases r1)
    case (Inl err)
    with assms t w1 show ?thesis by (simp add: install_def)
  next
    case (Inr tempFile)
    with tf have tp: "tempFile = DownloadedBinaryFilePath info" by simp
    obtain r2 w2 where rb: "replaceBinary tempFile (executablePath u) w = (r2, w2)"
      by (cases "replaceBinary tempFile (executablePath u) w")
    from assms(1) t w1 Inr rb obtain err where r2: "r2 = Some err" and w': "w' = snd (os_Remove tempFile w2)"
      by (cases r2) (auto simp: install_def)
    from rb r2 have "w2 = w"
      by (auto simp: replaceBinary_def os_Rename_def split: option.splits)
    with w' tp assms(2) show ?thesis by (simp add: os_Remove_files)
  qed
qed

lemma verify_and_install_frame:
  assumes "verify_and_install L u releaseInfo info w = (Some e, w')"
    and "checksumDownloader u = Download L c"
    and "DownloadedBinaryFilePath info \<noteq> executablePath u"
  shows "files w' (executablePath u) = files w (executablePath u)"
proof -
  obtain r1 w1 where d: "Download L c (Assets releaseInfo) w = (r1, w1)"
    by (cases "Download L c (Assets releaseInfo) w")
  with Download_files [of L c "Assets releaseInfo" w] have f1: "files w1 = files w" by simp
  show ?thesis
  proof (cases r1)
    case (Inl err)
    with assms d f1 show ?thesis by (simp add: verify_and_install_def)
  next
    case (Inr checksumInfo)
    show ?thesis
    proof (cases "checksumValidator u (Base (executablePath u)) checksumInfo (Checksum info)")
      case False
      with assms d f1 Inr show ?thesis by (simp add: verify_and_install_def)
    next
      case True
      with assms d Inr have "install L u (Base (executablePath u)) info w1 = (Some e, w')"
        by (simp add: verify_and_install_def)
      from install_frame [OF this assms(3)] f1 show ?thesis by simp
    qed
  qed
qed

lemma Upgrade_failure_frame:
  assumes up: "Upgrade V L u currentVersion w = (Some e, w')"
    and ad: "assetDownloader u = DownloadAsset L d"
    and cd: "checksumDownloader u = Download L c"
    and rg: "files (snd (releaseGetter u w)) (executablePath u) = files w (executablePath u)"
    and ex: "files w (executablePath u) \<noteq> None"
  shows "files w' (executablePath u) = files w (executablePath u)"
proof (cases "NewVersion V currentVersion")
  case (Inl err)
  with up show ?thesis by (simp add: Upgrade_def)
next
  case cur: (Inr current)
  obtain r1 w1 where g: "releaseGetter u w = (r1, w1)" by (cases "releaseGetter u w")
  with rg have f1: "files w1 (executablePath u) = files w (executablePath u)" by simp
  show ?thesis
  proof (cases r1)
    case (Inl err)
    with up cur g f1 show ?thesis by (simp add: Upgrade_def)
  next
    case rel: (Inr releaseInfo)
    show ?thesis
    proof (cases "NewVersion V (TagName releaseInfo)")
      case (Inl err)
      with up cur g rel f1 show ?thesis by (simp add: Upgrade_def)
    next
      case lat: (Inr latest)
      show ?thesis
      proof (cases "LessThanOrEqual V latest current")
        case True
        with up cur g rel lat show ?thesis by (simp add: Upgrade_def)
      next
        case newer: False
        obtain r2 w2 where a: "DownloadAsset L d (Assets releaseInfo) w1 = (r2, w2)"
          by (cases "DownloadAsset L d (Assets releaseInfo) w1")
        note ar = DownloadAsset_result [OF a]
        show ?thesis
        proof (cases r2)
          case (Inl err)
          with ar ex f1 have "files w2 (executablePath u) = files w1 (executablePath u)" by simp
          with up cur g rel lat newer a ad Inl f1 show ?thesis by (simp add: Upgrade_def)
        next
          case (Inr ic)
          obtain info cl where ic: "ic = (info, cl)" by (cases ic)
          from ar Inr ic have fresh: "files w1 (DownloadedBinaryFilePath info) = None"
            and cl: "cl = Some (os_Remove (DownloadedBinaryFilePath info))"
            and keep: "\<forall>p. p \<noteq> DownloadedBinaryFilePath info \<longrightarrow> files w2 p = files w1 p"
            by auto
          from fresh ex f1 have ne: "DownloadedBinaryFilePath info \<noteq> executablePath u" by auto
          with keep have f2: "files w2 (executablePath u) = files w1 (executablePath u)" by simp
          obtain r3 w3 where v: "verify_and_install L u releaseInfo info w2 = (r3, w3)"
            by (cases "verify_and_install L u releaseInfo info w2")
          from up cur g rel lat newer a ad Inr ic cl v
          have r3: "r3 = Some e" and w': "w' = snd (os_Remove (DownloadedBinaryFilePath info) w3)"
            by (simp_all add: Upgrade_def)
          from verify_and_install_frame [OF v [unfolded r3] cd ne]
          have "files w3 (executablePath u) = files w2 (executablePath u)" .
          with w' ne f2 f1 show ?thesis by (simp add: os_Remove_files)
        qed
      qed
    qed
  qed
qed

subsection \<open>The upgrade\<close>

text \<open>
  C7. When both versions parse and the latest is not greater than the current one
  (\<open>Compare latest current \<le> 0\<close>), \<open>Upgrade\<close> returns success and the world is the one the
  release fetch left: no other collaborator runs (the result is the same whatever the
  asset downloader, the checksum downloader and the validator are), so no asset is
  requested and no file changes. \<open>IsNewVersionAvailable\<close> returns whether the latest
  version is strictly greater than the current one, and an error when the current or the
  latest version does not parse.
\<close>

theorem Upgrade_no_op_when_not_newer:
  "(NewVersion V currentVersion = Inr current \<and> releaseGetter u w = (Inr releaseInfo, w1) \<and>
    NewVersion V (TagName releaseInfo) = Inr latest \<and> Compare V latest current \<le> 0 \<longrightarrow>
      Upgrade V L u currentVersion w = (None, w1) \<and>
      Upgrade V L (u\<lparr>assetDownloader := ad, checksumDownloader := cd, checksumValidator := cv\<rparr>)
        currentVersion w = (None, w1)) \<and>
   (NewVersion V currentVersion = Inr current \<and> releaseGetter u w = (Inr releaseInfo, w1) \<and>
    NewVersion V (TagName releaseInfo) = Inr latest \<longrightarrow>
      IsNewVersionAvailable V u currentVersion w = (Inr (0 < Compare V latest current), w1)) \<and>
   (NewVersion V currentVersion = Inl err \<longrightarrow>
      (\<exists>e. IsNewVersionAvailable V u currentVersion w = (Inl e, w))) \<and>
   (NewVersion V currentVersion = Inr current \<and> releaseGetter u w = (Inr releaseInfo, w1) \<and>
    NewVersion V (TagName releaseInfo) = Inl err \<longrightarrow>
      (\<exists>e. IsNewVersionAvailable V u currentVersion w = (Inl e, w1)))"
  by (simp add: Upgrade_def IsNewVersionAvailable_def LessThanOrEqual_def GreaterThan_def)

text \<open>
  C8. \<open>replaceBinary\<close> is one \<open>os.Rename\<close>: when the rename fails, \<open>replaceBinary\<close>
  returns the error wrapped and the world is unchanged; when the rename succeeds,
  \<open>replaceBinary\<close> returns no error and the world that the rename left, and it does so
  whenever the system does not refuse the rename and the temporary file exists: then the
  file of the temporary path is at the executable's path and the temporary path is gone;
  \<open>replaceBinary\<close> returns no error in no other way. In \<open>Upgrade\<close> the failure is
  wrapped once more. With the asset downloader and the
  checksum downloader of this repository, and a release fetch that leaves the executable
  as it is, every \<open>Upgrade\<close> that returns an error leaves the file at the executable's
  path as it was.
\<close>

theorem replaceBinary_single_rename:
  "(os_Rename tmpFilePath currentBinaryPath w = (Some err, w1) \<longrightarrow>
      w1 = w \<and>
      replaceBinary tmpFilePath currentBinaryPath w =
        (Some (WrapError ''failed to replace binary: '' err []), w)) \<and>
   (os_Rename tmpFilePath currentBinaryPath w = (None, w1) \<longrightarrow>
      replaceBinary tmpFilePath currentBinaryPath w = (None, w1)) \<and>
   (fault w ''rename'' [tmpFilePath, currentBinaryPath] = None \<and> files w tmpFilePath = Some f \<longrightarrow>
      replaceBinary tmpFilePath currentBinaryPath w =
        (None, w\<lparr>files := (files w)(tmpFilePath := None, currentBinaryPath \<mapsto> f)\<rparr>)) \<and>
   (replaceBinary tmpFilePath currentBinaryPath w = (None, w') \<longrightarrow>
      (\<exists>f. files w tmpFilePath = Some f \<and>
           w' = w\<lparr>files := (files w)(tmpFilePath := None, currentBinaryPath \<mapsto> f)\<rparr>)) \<and>
   (tryUnArchive L name (DownloadedBinaryFilePath info) w = (Inr tempFile, w2) \<and>
    os_Rename tempFile (executablePath u) w2 = (Some err, w3) \<longrightarrow>
      fst (install L u name info w) =
        Some (WrapError ''failed to replace binary: ''
               (WrapError ''failed to replace binary: '' err []) [])) \<and>
   (assetDownloader u = DownloadAsset L d \<and> checksumDownloader u = Download L c \<and>
    files (snd (releaseGetter u w)) (executablePath u) = files w (executablePath u) \<and>
    files w (executablePath u) \<noteq> None \<and> Upgrade V L u currentVersion w = (Some e, w') \<longrightarrow>
      files w' (executablePath u) = files w (executablePath u))"
proof (intro conjI impI)
  assume a: "os_Rename tmpFilePath currentBinaryPath w = (Some err, w1)"
  then show "w1 = w"
    by (auto simp: os_Rename_def split: option.splits)
  with a show "replaceBinary tmpFilePath currentBinaryPath w =
        (Some (WrapError ''failed to replace binary: '' err []), w)"
    by (simp add: replaceBinary_def)
next
  assume "os_Rename tmpFilePath currentBinaryPath w = (None, w1)"
  then show "replaceBinary tmpFilePath currentBinaryPath w = (None, w1)"
    by (simp add: replaceBinary_def)
next
  assume "fault w ''rename'' [tmpFilePath, currentBinaryPath] = None \<and> files w tmpFilePath = Some f"
  then show "replaceBinary tmpFilePath currentBinaryPath w =
        (None, w\<lparr>files := (files w)(tmpFilePath := None, currentBinaryPath \<mapsto> f)\<rparr>)"
    by (simp add: replaceBinary_def os_Rename_def)
next
  assume "replaceBinary tmpFilePath currentBinaryPath w = (None, w')"
  then show "\<exists>f. files w tmpFilePath = Some f \<and>
           w' = w\<lparr>files := (files w)(tmpFilePath := None, currentBinaryPath \<mapsto> f)\<rparr>"
    by (auto simp: replaceBinary_def os_Rename_def split: option.splits)
next
  assume "tryUnArchive L name (DownloadedBinaryFilePath info) w = (Inr tempFile, w2) \<and>
    os_Rename tempFile (executablePath u) w2 = (Some err, w3)"
  then show "fst (install L u name info w) =
        Some (WrapError ''failed to replace binary: ''
               (WrapError ''failed to replace binary: '' err []) [])"
    by (simp add: install_def replaceBinary_def)
next
  assume "assetDownloader u = DownloadAsset L d \<and> checksumDownloader u = Download L c \<and>
    files (snd (releaseGetter u w)) (executablePath u) = files w (executablePath u) \<and>
    files w (executablePath u) \<noteq> None \<and> Upgrade V L u currentVersion w = (Some e, w')"
  then show "files w' (executablePath u) = files w (executablePath u)"
    using Upgrade_failure_frame [of V L u currentVersion w e w' d c] by blast
qed




lemma tryUnArchive_no_extension:
  "Ext arPath = [] \<Longrightarrow> files w arPath \<noteq> None \<Longrightarrow> fault w ''open'' [arPath] = None \<Longrightarrow>
   tryUnArchive L prefix arPath w = (Inr arPath, w)"
  by (auto simp: tryUnArchive_def os_Open_def switch_ext_def)


subsection \<open>The example run\<close>

lemma itoa_1234: "itoa 1234 = ''1234''"
  by (simp add: itoa.simps)

lemma itoa_10: "itoa 10 = ''10''"
  by (simp add: itoa.simps)

lemma example_upgrader_fields:
  "executablePath example_upgrader = ''/usr/local/bin/app''"
  "releaseGetter example_upgrader = example_getter ''app'' ''apoxy-dev''"
  "assetDownloader example_upgrader = DownloadAsset example_lib example_downloader"
  "checksumDownloader example_upgrader = Download example_lib \<lparr>assetSuffix = ''checksums.txt''\<rparr>"
  "checksumValidator example_upgrader = IsCheckSumValid example_validator"
  by (simp_all add: example_upgrader_def NewUpgrader_def example_downloader_def example_validator_def)

lemma example_downloadAsset:
  assumes "files w = [''/usr/local/bin/app'' \<mapsto> \<lparr>content = ''old binary'', mode = 493\<rparr>]"
    and "TempDir w = ''/tmp''"
    and "entropy w (entropy_used w) = 1234"
    and "http w url = Inr (''new binary'', None)"
    and "fault w ''open'' [''/tmp/app1234''] = None"
    and "fault w ''chmod'' [''/tmp/app1234''] = None"
  shows "downloadAsset example_lib example_downloader url w =
     (Inr (\<lparr>Checksum = ''abc10'', DownloadedBinaryFilePath = ''/tmp/app1234'',
             PlatformSuffix = [], ArSuffix = []\<rparr>, os_Remove ''/tmp/app1234''),
      w\<lparr>requests := requests w @ [url], entropy_used := entropy_used w + 1,
         files := [''/usr/local/bin/app'' \<mapsto> \<lparr>content = ''old binary'', mode = 493\<rparr>,
                   ''/tmp/app1234'' \<mapsto> \<lparr>content = ''new binary'', mode = 493\<rparr>]\<rparr>)"
proof -
  have b: "Base (d_executablePath example_downloader) = ''app''"
    by (simp add: example_downloader_def Base_def)
  have ps: "prefixAndSuffix ''app'' = Inr (''app'', [])"
    by (simp add: prefixAndSuffix_def)
  have jp: "joinPath ''/tmp'' ''app'' = ''/tmp/app''"
    by (simp add: joinPath_def)
  let ?w1 = "w\<lparr>requests := requests w @ [url]\<rparr>"
  have ct: "os_CreateTemp [] ''app'' ?w1 =
      (Inr ''/tmp/app1234'',
       ?w1\<lparr>entropy_used := entropy_used w + 1,
            files := (files w)(''/tmp/app1234'' \<mapsto> \<lparr>content = [], mode = 384\<rparr>)\<rparr>)"
    using assms
    by (simp add: os_CreateTemp_def ps jp createTemp_loop_unfold [of 0] itoa_1234)
  have l: "length ''new binary'' = 10" by simp
  have sha: "sha256_hex example_lib ''new binary'' = ''abc10''"
    by (simp only: example_lib_def golib.select_convs l itoa_10) simp
  have nr: "http_NewRequest example_lib url = None"
    by (simp add: example_lib_def)
  show ?thesis
    using assms
    by (simp add: downloadAsset_def b nr sha http_Do_def ct io_Copy_def os_Chmod_def)
qed

lemma example_getter_run:
  "releaseGetter example_upgrader (example_world b) = (Inr example_release, example_world_fetched b)"
  by (simp add: example_upgrader_fields example_getter_def example_release_def
      example_world_fetched_def example_world_def)

lemma example_find:
  "List.find (spec_matches example_lib ''linux_amd64'') example_assets =
     Some \<lparr>BrowserDownloadURL = ''app_linux_amd64.tar.gz''\<rparr>"
  by (simp add: example_assets_def spec_matches_def ToLower_example_asset spec_normalize_def
      spec_archive_suffix_def archive_suffixes_def HasSuffix_def)

lemma example_archive_suffix: "spec_archive_suffix ''app_linux_amd64.tar.gz'' = ''.tar.gz''"
  by (simp add: spec_archive_suffix_def archive_suffixes_def HasSuffix_def)

lemma example_DownloadAsset_run:
  "DownloadAsset example_lib example_downloader example_assets (example_world_fetched b) =
     (Inr (example_info, Some (os_Remove ''/tmp/app1234'')),
      (example_world b)
        \<lparr>requests := [''releases/latest'', ''app_linux_amd64.tar.gz''],
         entropy_used := Suc 0,
         files := [''/usr/local/bin/app'' \<mapsto> \<lparr>content = ''old binary'', mode = 493\<rparr>,
                   ''/tmp/app1234'' \<mapsto> \<lparr>content = ''new binary'', mode = 493\<rparr>]\<rparr>)"
proof -
  have d: "d_os example_downloader @ ''_'' @ d_arch example_downloader = ''linux_amd64''"
    by (simp add: example_downloader_def)
  have dl: "downloadAsset example_lib example_downloader ''app_linux_amd64.tar.gz'' (example_world_fetched b) =
     (Inr (\<lparr>Checksum = ''abc10'', DownloadedBinaryFilePath = ''/tmp/app1234'',
             PlatformSuffix = [], ArSuffix = []\<rparr>, os_Remove ''/tmp/app1234''),
      (example_world_fetched b)
        \<lparr>requests := requests (example_world_fetched b) @ [''app_linux_amd64.tar.gz''],
         entropy_used := entropy_used (example_world_fetched b) + 1,
         files := [''/usr/local/bin/app'' \<mapsto> \<lparr>content = ''old binary'', mode = 493\<rparr>,
                   ''/tmp/app1234'' \<mapsto> \<lparr>content = ''new binary'', mode = 493\<rparr>]\<rparr>)"
    by (rule example_downloadAsset)
       (simp_all add: example_world_fetched_def example_world_def example_fault_def)
  have "DownloadAsset example_lib example_downloader example_assets (example_world_fetched b) =
     (Inr (example_info, Some (os_Remove ''/tmp/app1234'')),
      (example_world_fetched b)
        \<lparr>requests := requests (example_world_fetched b) @ [''app_linux_amd64.tar.gz''],
         entropy_used := entropy_used (example_world_fetched b) + 1,
         files := [''/usr/local/bin/app'' \<mapsto> \<lparr>content = ''old binary'', mode = 493\<rparr>,
                   ''/tmp/app1234'' \<mapsto> \<lparr>content = ''new binary'', mode = 493\<rparr>]\<rparr>)"
    unfolding DownloadAsset_def DownloadAsset_loop_find d example_find
    by (simp add: dl ToLower_example_asset example_archive_suffix example_info_def)
  also have "(example_world_fetched b)
        \<lparr>requests := requests (example_world_fetched b) @ [''app_linux_amd64.tar.gz''],
         entropy_used := entropy_used (example_world_fetched b) + 1,
         files := [''/usr/local/bin/app'' \<mapsto> \<lparr>content = ''old binary'', mode = 493\<rparr>,
                   ''/tmp/app1234'' \<mapsto> \<lparr>content = ''new binary'', mode = 493\<rparr>]\<rparr> =
      (example_world b)
        \<lparr>requests := [''releases/latest'', ''app_linux_amd64.tar.gz''],
         entropy_used := Suc 0,
         files := [''/usr/local/bin/app'' \<mapsto> \<lparr>content = ''old binary'', mode = 493\<rparr>,
                   ''/tmp/app1234'' \<mapsto> \<lparr>content = ''new binary'', mode = 493\<rparr>]\<rparr>"
    by (simp add: example_world_fetched_def example_world_def)
  finally show ?thesis .
qed

lemma example_Download_run:
  "Download example_lib \<lparr>assetSuffix = ''checksums.txt''\<rparr> example_assets
     ((example_world b)
        \<lparr>requests := [''releases/latest'', ''app_linux_amd64.tar.gz''],
         entropy_used := Suc 0,
         files := [''/usr/local/bin/app'' \<mapsto> \<lparr>content = ''old binary'', mode = 493\<rparr>,
                   ''/tmp/app1234'' \<mapsto> \<lparr>content = ''new binary'', mode = 493\<rparr>]\<rparr>) =
     (Inr \<lparr>Checksums = Mapping.update ''app_linux_amd64'' ''abc10'' Mapping.empty\<rparr>,
      example_world_downloaded b)"
proof -
  have f: "Fields example_lib (TrimSpace example_lib ''abc10  app_linux_amd64.tar.gz'') =
      [''abc10'', ''app_linux_amd64.tar.gz'']"
    by (simp add: Fields_def TrimSpace_def isASCII_def asciiSpace_def asciiFields_def)
  have low: "ToLower example_lib ''abc10'' = ''abc10''"
    by (simp add: ToLower_def isASCII_def lowerByte_def)
  have p: "parse_checksums example_lib [''abc10  app_linux_amd64.tar.gz''] =
      Inr \<lparr>Checksums = Mapping.update ''app_linux_amd64'' ''abc10'' Mapping.empty\<rparr>"
    by (simp add: parse_checksums_def f low manifest_key_example)
  have nr: "\<And>url. http_NewRequest example_lib url = None"
    by (simp add: example_lib_def)
  have bl: "Scanner_lines (''abc10  app_linux_amd64.tar.gz'', None) = [''abc10  app_linux_amd64.tar.gz'']"
    by (simp add: Scanner_lines_def MaxScanTokenSize_def dropCR_def)
  show ?thesis
    by (simp add: example_assets_def HasSuffix_def downloadCheckSum_def nr bl http_Do_def p
        example_world_def example_world_downloaded_def)
qed

lemma example_valid:
  "IsCheckSumValid example_validator ''app''
     \<lparr>Checksums = Mapping.update ''app_linux_amd64'' ''abc10'' Mapping.empty\<rparr> ''abc10''"
  by (simp add: IsCheckSumValid_def example_validator_def)

lemma example_Upgrade_run:
  "Upgrade example_versions example_lib example_upgrader ''1.0.0'' (example_world b) =
     (case install example_lib example_upgrader ''app'' example_info (example_world_downloaded b) of
        (res, w) \<Rightarrow> (res, snd (os_Remove ''/tmp/app1234'' w)))"
proof -
  have v: "NewVersion example_versions ''1.0.0'' = Inr 1"
    "NewVersion example_versions (TagName example_release) = Inr 2"
    "\<not> LessThanOrEqual example_versions 2 1"
    by (simp_all add: example_versions_def example_release_def LessThanOrEqual_def)
  have b: "Base (executablePath example_upgrader) = ''app''"
    by (simp add: example_upgrader_fields Base_def)
  have a: "Assets example_release = example_assets" "Checksum example_info = ''abc10''"
    by (simp_all add: example_release_def example_info_def)
  have vi: "verify_and_install example_lib example_upgrader example_release example_info
        ((example_world b)
          \<lparr>requests := [''releases/latest'', ''app_linux_amd64.tar.gz''],
           entropy_used := Suc 0,
           files := [''/usr/local/bin/app'' \<mapsto> \<lparr>content = ''old binary'', mode = 493\<rparr>,
                     ''/tmp/app1234'' \<mapsto> \<lparr>content = ''new binary'', mode = 493\<rparr>]\<rparr>) =
      install example_lib example_upgrader ''app'' example_info (example_world_downloaded b)"
    unfolding verify_and_install_def example_upgrader_fields(4,5) a example_Download_run
    by (simp add: b example_valid)
  have v': "\<not> LessThanOrEqual example_versions 2 (Suc 0)"
    using v(3) by simp
  show ?thesis
    by (simp add: Upgrade_def v v' example_getter_run example_upgrader_fields(3) a
        example_DownloadAsset_run vi split: prod.splits)
qed

lemma example_downloaded_facts:
  "files (example_world_downloaded b) ''/tmp/app1234'' = Some \<lparr>content = ''new binary'', mode = 493\<rparr>"
  "files (example_world_downloaded b) ''/usr/local/bin/app'' = Some \<lparr>content = ''old binary'', mode = 493\<rparr>"
  "fault (example_world_downloaded b) = example_fault b"
  "requests (example_world_downloaded b) = [''releases/latest'', ''app_linux_amd64.tar.gz'', ''checksums.txt'']"
  by (simp_all add: example_world_downloaded_def example_world_def)


theorem Upgrade_no_op_when_not_newer_witness:
  "Upgrade example_versions example_lib example_upgrader ''2.0.0'' (example_world False) =
     (None, example_world_fetched False) \<and>
   files (example_world_fetched False) ''/usr/local/bin/app'' =
     Some \<lparr>content = ''old binary'', mode = 493\<rparr> \<and>
   requests (example_world_fetched False) = [''releases/latest''] \<and>
   IsNewVersionAvailable example_versions example_upgrader ''1.0.0'' (example_world False) =
     (Inr True, example_world_fetched False) \<and>
   IsNewVersionAvailable example_versions example_upgrader ''2.0.0'' (example_world False) =
     (Inr False, example_world_fetched False) \<and>
   (\<exists>e. IsNewVersionAvailable example_versions example_upgrader ''two'' (example_world False) =
     (Inl e, example_world False))"
proof -
  have same: "NewVersion example_versions ''2.0.0'' = Inr 2 \<and>
      releaseGetter example_upgrader (example_world False) = (Inr example_release, example_world_fetched False) \<and>
      NewVersion example_versions (TagName example_release) = Inr 2 \<and>
      Compare example_versions 2 2 \<le> 0"
    by (simp add: example_versions_def example_getter_run example_release_def)
  have older: "NewVersion example_versions ''1.0.0'' = Inr 1 \<and>
      releaseGetter example_upgrader (example_world False) = (Inr example_release, example_world_fetched False) \<and>
      NewVersion example_versions (TagName example_release) = Inr 2"
    by (simp add: example_versions_def example_getter_run example_release_def)
  have bad: "NewVersion example_versions ''two'' = Inl (ErrorString ''Malformed version: two'')"
    by (simp add: example_versions_def)
  have c: "(0 < Compare example_versions 2 1) = True" "(0 < Compare example_versions 2 2) = False"
    by (simp_all add: example_versions_def)
  note t = Upgrade_no_op_when_not_newer [where V = example_versions and L = example_lib
      and u = example_upgrader and w = "example_world False"]
  have 1: "Upgrade example_versions example_lib example_upgrader ''2.0.0'' (example_world False) =
     (None, example_world_fetched False)"
    by (rule t [THEN conjunct1, THEN mp, OF same, THEN conjunct1])
  have 2: "IsNewVersionAvailable example_versions example_upgrader ''1.0.0'' (example_world False) =
     (Inr True, example_world_fetched False)"
    using t [THEN conjunct2, THEN conjunct1, THEN mp, OF older] by (simp only: c)
  have 3: "IsNewVersionAvailable example_versions example_upgrader ''2.0.0'' (example_world False) =
     (Inr False, example_world_fetched False)"
    using t [THEN conjunct2, THEN conjunct1, THEN mp, OF same [THEN conjunct1, THEN conjI,
          OF same [THEN conjunct2, THEN conjunct1, THEN conjI,
            OF same [THEN conjunct2, THEN conjunct2, THEN conjunct1]]]]
    by (simp only: c)
  have 4: "\<exists>e. IsNewVersionAvailable example_versions example_upgrader ''two'' (example_world False) =
     (Inl e, example_world False)"
    by (rule t [THEN conjunct2, THEN conjunct2, THEN conjunct1, THEN mp, OF bad])
  have 5: "files (example_world_fetched False) ''/usr/local/bin/app'' =
     Some \<lparr>content = ''old binary'', mode = 493\<rparr>"
    "requests (example_world_fetched False) = [''releases/latest'']"
    by (simp_all add: example_world_fetched_def example_world_def)
  from 1 2 3 4 5 show ?thesis by (intro conjI)
qed

theorem replaceBinary_single_rename_witness:
  "os_Rename ''/tmp/app1234'' ''/usr/local/bin/app'' (example_world_downloaded True) =
     (Some (LinkError ''rename'' ''/tmp/app1234'' ''/usr/local/bin/app''
             (ErrorString ''invalid cross-device link'')), example_world_downloaded True) \<and>
   replaceBinary ''/tmp/app1234'' ''/usr/local/bin/app'' (example_world_downloaded True) =
     (Some (WrapError ''failed to replace binary: ''
             (LinkError ''rename'' ''/tmp/app1234'' ''/usr/local/bin/app''
               (ErrorString ''invalid cross-device link'')) []), example_world_downloaded True) \<and>
   fst (Upgrade example_versions example_lib example_upgrader ''1.0.0'' (example_world True)) =
     Some (WrapError ''failed to replace binary: ''
            (WrapError ''failed to replace binary: ''
              (LinkError ''rename'' ''/tmp/app1234'' ''/usr/local/bin/app''
                (ErrorString ''invalid cross-device link'')) []) []) \<and>
   files (example_world True) ''/usr/local/bin/app'' = Some \<lparr>content = ''old binary'', mode = 493\<rparr> \<and>
   files (snd (Upgrade example_versions example_lib example_upgrader ''1.0.0'' (example_world True)))
     ''/usr/local/bin/app'' = Some \<lparr>content = ''old binary'', mode = 493\<rparr> \<and>
   files (example_world_downloaded False) ''/tmp/app1234'' = Some \<lparr>content = ''new binary'', mode = 493\<rparr> \<and>
   os_Rename ''/tmp/app1234'' ''/usr/local/bin/app'' (example_world_downloaded False) =
     (None, (example_world_downloaded False)
        \<lparr>files := (files (example_world_downloaded False))
           (''/tmp/app1234'' := None,
            ''/usr/local/bin/app'' \<mapsto> \<lparr>content = ''new binary'', mode = 493\<rparr>)\<rparr>) \<and>
   replaceBinary ''/tmp/app1234'' ''/usr/local/bin/app'' (example_world_downloaded False) =
     (None, (example_world_downloaded False)
        \<lparr>files := (files (example_world_downloaded False))
           (''/tmp/app1234'' := None,
            ''/usr/local/bin/app'' \<mapsto> \<lparr>content = ''new binary'', mode = 493\<rparr>)\<rparr>) \<and>
   files (snd (replaceBinary ''/tmp/app1234'' ''/usr/local/bin/app'' (example_world_downloaded False)))
     ''/usr/local/bin/app'' = Some \<lparr>content = ''new binary'', mode = 493\<rparr> \<and>
   files (snd (replaceBinary ''/tmp/app1234'' ''/usr/local/bin/app'' (example_world_downloaded False)))
     ''/tmp/app1234'' = None"
proof -
  let ?err = "LinkError ''rename'' ''/tmp/app1234'' ''/usr/local/bin/app''
     (ErrorString ''invalid cross-device link'')"
  let ?up = "Upgrade example_versions example_lib example_upgrader ''1.0.0'' (example_world True)"
  note t = replaceBinary_single_rename [where L = example_lib and u = example_upgrader
      and V = example_versions]
  have rn: "os_Rename ''/tmp/app1234'' ''/usr/local/bin/app'' (example_world_downloaded True) =
     (Some ?err, example_world_downloaded True)"
    by (simp add: os_Rename_def example_downloaded_facts example_fault_def)
  have rb: "replaceBinary ''/tmp/app1234'' ''/usr/local/bin/app'' (example_world_downloaded True) =
     (Some (WrapError ''failed to replace binary: '' ?err []), example_world_downloaded True)"
    by (rule t [THEN conjunct1, THEN mp, OF rn, THEN conjunct2])
  have ext: "Ext ''/tmp/app1234'' = []"
    by (simp add: Ext_def)
  have tu: "tryUnArchive example_lib ''app'' (DownloadedBinaryFilePath example_info) (example_world_downloaded True) =
      (Inr ''/tmp/app1234'', example_world_downloaded True)"
    by (simp add: example_info_def tryUnArchive_no_extension ext example_downloaded_facts example_fault_def)
  have rn': "os_Rename ''/tmp/app1234'' (executablePath example_upgrader) (example_world_downloaded True) =
     (Some ?err, example_world_downloaded True)"
    using rn by (simp add: example_upgrader_fields)
  have inst: "fst (install example_lib example_upgrader ''app'' example_info (example_world_downloaded True)) =
      Some (WrapError ''failed to replace binary: '' (WrapError ''failed to replace binary: '' ?err []) [])"
    by (rule t [THEN conjunct2, THEN conjunct2, THEN conjunct2, THEN conjunct2, THEN conjunct1, THEN mp,
          OF conjI [OF tu rn']])
  have up: "fst ?up =
      Some (WrapError ''failed to replace binary: '' (WrapError ''failed to replace binary: '' ?err []) [])"
    using inst by (simp add: example_Upgrade_run split_beta)
  have old: "files (example_world True) ''/usr/local/bin/app'' = Some \<lparr>content = ''old binary'', mode = 493\<rparr>"
    by (simp add: example_world_def)
  have hyp: "assetDownloader example_upgrader = DownloadAsset example_lib example_downloader \<and>
      checksumDownloader example_upgrader = Download example_lib \<lparr>assetSuffix = ''checksums.txt''\<rparr> \<and>
      files (snd (releaseGetter example_upgrader (example_world True))) (executablePath example_upgrader) =
        files (example_world True) (executablePath example_upgrader) \<and>
      files (example_world True) (executablePath example_upgrader) \<noteq> None \<and>
      ?up = (Some (WrapError ''failed to replace binary: '' (WrapError ''failed to replace binary: '' ?err []) []),
             snd ?up)"
    using up
    by (simp add: example_upgrader_fields(1,3,4) example_getter_run example_world_fetched_def old
        prod_eq_iff)
  have "files (snd ?up) (executablePath example_upgrader) =
      files (example_world True) (executablePath example_upgrader)"
    by (rule t [THEN conjunct2, THEN conjunct2, THEN conjunct2, THEN conjunct2, THEN conjunct2, THEN mp,
          OF hyp])
  then have kept: "files (snd ?up) ''/usr/local/bin/app'' = Some \<lparr>content = ''old binary'', mode = 493\<rparr>"
    by (simp add: example_upgrader_fields(1) old)
  let ?new = "(example_world_downloaded False)
     \<lparr>files := (files (example_world_downloaded False))
        (''/tmp/app1234'' := None,
         ''/usr/local/bin/app'' \<mapsto> \<lparr>content = ''new binary'', mode = 493\<rparr>)\<rparr>"
  have there: "fault (example_world_downloaded False) ''rename'' [''/tmp/app1234'', ''/usr/local/bin/app''] = None \<and>
      files (example_world_downloaded False) ''/tmp/app1234'' = Some \<lparr>content = ''new binary'', mode = 493\<rparr>"
    by (simp add: example_downloaded_facts example_fault_def)
  have ok: "os_Rename ''/tmp/app1234'' ''/usr/local/bin/app'' (example_world_downloaded False) = (None, ?new)"
    by (simp add: os_Rename_def there)
  have rb_ok: "replaceBinary ''/tmp/app1234'' ''/usr/local/bin/app'' (example_world_downloaded False) = (None, ?new)"
    by (rule t [THEN conjunct2, THEN conjunct1, THEN mp, OF ok])
  have moved: "replaceBinary ''/tmp/app1234'' ''/usr/local/bin/app'' (example_world_downloaded False) = (None, ?new)"
    by (rule t [THEN conjunct2, THEN conjunct2, THEN conjunct1, THEN mp, OF there])
  have inplace: "files (snd (replaceBinary ''/tmp/app1234'' ''/usr/local/bin/app'' (example_world_downloaded False)))
      ''/usr/local/bin/app'' = Some \<lparr>content = ''new binary'', mode = 493\<rparr>"
    "files (snd (replaceBinary ''/tmp/app1234'' ''/usr/local/bin/app'' (example_world_downloaded False)))
      ''/tmp/app1234'' = None"
    unfolding moved by simp_all
  from rn rb up old kept there [THEN conjunct2] ok rb_ok inplace show ?thesis by (intro conjI)
qed


end
